theory Spec2Isabelle
  imports Complex_Main "HOL-Library.Word" "HOL-Library.Sublist"
begin

chapter \<open>The WhatsApp session gateway (WhatsApp.js)\<close>

text \<open>
  A shallow embedding of \<^verbatim>\<open>src/WhatsApp.js\<close>: the input sanitizer, the phone-number
  validator, the token helpers, the authentication and connection middlewares, the
  handlers of the client's events and the HTTP routes. The module's variables
  (\<^verbatim>\<open>estadoBot\<close>, \<^verbatim>\<open>codigoQR\<close>, \<^verbatim>\<open>clienteListo\<close>, \<^verbatim>\<open>mensajesEntrantes\<close>) are the
  fields of a state record that every handler takes and returns. What the packages
  outside the file answer (whatsapp-web.js, jsonwebtoken, bcrypt, express-validator,
  express-rate-limit, fs, path) is an argument of the function that asks for it.
  Names are the source's.
\<close>

section \<open>Strings\<close>

text \<open>
  A JavaScript string is a sequence of UTF-16 code units; \<^verbatim>\<open>length\<close>, \<^verbatim>\<open>substring\<close>
  and a regular expression without the \<^verbatim>\<open>u\<close> flag all count and match code units.
  \<open>js\<close> writes an ASCII literal of the source as code units; a letter outside ASCII
  is written by its code unit.
\<close>

type_synonym unidad = "16 word"
type_synonym cadena = "unidad list"

definition js :: "string \<Rightarrow> cadena" where
  "js s = map of_char s"

text \<open>
  \<^verbatim>\<open>s.replace(pat, rep)\<close> with a string pattern replaces the first occurrence only.
  (The source's only call has the empty replacement, so the \<^verbatim>\<open>$\<close> patterns of a
  replacement string play no role.)
\<close>

fun reemplazar :: "cadena \<Rightarrow> cadena \<Rightarrow> cadena \<Rightarrow> cadena" where
  "reemplazar pat rep [] = (if pat = [] then rep else [])"
| "reemplazar pat rep (c # cs) =
     (if prefix pat (c # cs) then rep @ drop (length pat) (c # cs)
      else c # reemplazar pat rep cs)"

text \<open>\<^verbatim>\<open>x || y\<close> on a string that may be undefined: the empty string is falsy too.\<close>

definition o_bien :: "cadena option \<Rightarrow> cadena \<Rightarrow> cadena" where
  "o_bien x y = (case x of None \<Rightarrow> y | Some s \<Rightarrow> if s = [] then y else s)"

section \<open>Values\<close>

text \<open>
  The values a parsed request body is made of. An object is the list of its own
  enumerable properties in enumeration order (as the \<^verbatim>\<open>for ... in\<close> loop visits
  them), together with its prototype when that is not the default one: \<open>None\<close>
  is \<^verbatim>\<open>Object.prototype\<close>, \<open>Some Null\<close> no prototype at all. An object
  that \<^verbatim>\<open>JSON.parse\<close> built has the default prototype and each key once.
\<close>

datatype valor = Undefined | Null | Booleano bool | Numero real | Cadena cadena
  | Arreglo "valor list" | Objeto "valor option" "(cadena \<times> valor) list"

text \<open>\<^verbatim>\<open>typeof v === 'object' && v !== null\<close>\<close>

fun es_objeto :: "valor \<Rightarrow> bool" where
  "es_objeto (Arreglo xs) = True"
| "es_objeto (Objeto pr ps) = True"
| "es_objeto v = False"

text \<open>Truthiness, as \<^verbatim>\<open>if (v)\<close> and \<^verbatim>\<open>!v\<close> read a value.\<close>

fun verdadero :: "valor \<Rightarrow> bool" where
  "verdadero Undefined = False"
| "verdadero Null = False"
| "verdadero (Booleano b) = b"
| "verdadero (Numero n) = (n \<noteq> 0)"
| "verdadero (Cadena s) = (s \<noteq> [])"
| "verdadero (Arreglo xs) = True"
| "verdadero (Objeto pr ps) = True"

text \<open>
  Reading a property \<^verbatim>\<open>obj[k]\<close> (the destructuring of the handlers), for a key that
  no built-in prototype defines: the object's own property, else its prototype's.
\<close>

fun leer :: "valor \<Rightarrow> cadena \<Rightarrow> valor" where
  "leer (Objeto pr ps) k =
     (case map_of ps k of
        Some v \<Rightarrow> v
      | None \<Rightarrow> (case pr of None \<Rightarrow> Undefined | Some q \<Rightarrow> leer q k))"
| "leer v k = Undefined"

text \<open>The default of a destructuring pattern, \<^verbatim>\<open>{ k = d }\<close>: it stands in for \<^verbatim>\<open>undefined\<close> only.\<close>

definition por_defecto :: "valor \<Rightarrow> valor \<Rightarrow> valor" where
  "por_defecto v d = (if v = Undefined then d else v)"

section \<open>limpiarEntrada\<close>

text \<open>The class \<^verbatim>\<open>[\x00-\x09\x0B\x0C\x0E-\x1F\x7F]\<close>.\<close>

definition es_control :: "unidad \<Rightarrow> bool" where
  "es_control c =
     (c \<le> 0x09 \<or> c = 0x0B \<or> c = 0x0C \<or> (0x0E \<le> c \<and> c \<le> 0x1F) \<or> c = 0x7F)"

text \<open>\<^verbatim>\<open>valor.replace(/[...]/g, '').substring(0, 10000)\<close>\<close>

definition limpiarCadena :: "cadena \<Rightarrow> cadena" where
  "limpiarCadena s = take 10000 (filter (\<lambda>c. \<not> es_control c) s)"

definition clave_proto :: cadena where
  "clave_proto = js ''__proto__''"

text \<open>
  \<^verbatim>\<open>resultado[clave] = valor\<close> on the fresh \<^verbatim>\<open>resultado\<close>, given as its prototype and
  its own properties. The loop visits each own key of the input once, so the
  assignment adds a property; for the key \<^verbatim>\<open>__proto__\<close> it reaches the accessor that
  \<^verbatim>\<open>Object.prototype\<close> defines, which sets the prototype to an object or null and
  ignores any other value, and adds no property.
\<close>

fun asignar :: "valor option \<times> (cadena \<times> valor) list \<Rightarrow> cadena \<Rightarrow> valor
    \<Rightarrow> valor option \<times> (cadena \<times> valor) list" where
  "asignar (pr, ps) clave v =
     (if clave = clave_proto
      then (if es_objeto v \<or> v = Null then (Some v, ps) else (pr, ps))
      else (pr, ps @ [(clave, v)]))"

text \<open>
  \<open>limpiarValor\<close> is the body of the loop: what is stored for the property's value.
  The loop filters on \<^verbatim>\<open>hasOwnProperty\<close>, so the input's prototype is not read.
  (The recursion goes as deep as the value is nested; the engine's limit on the
  depth of calls is not part of the model.)
\<close>

fun limpiarEntrada :: "valor \<Rightarrow> valor" and limpiarValor :: "valor \<Rightarrow> valor" where
  "limpiarEntrada (Arreglo xs) = Arreglo (foldl (\<lambda>resultado v. resultado @ [limpiarValor v]) [] xs)"
| "limpiarEntrada (Objeto pr0 ps) =
     (case foldl (\<lambda>resultado (clave, v). asignar resultado clave (limpiarValor v)) (None, []) ps of
        (pr, qs) \<Rightarrow> Objeto pr qs)"
| "limpiarEntrada obj = obj"
| "limpiarValor (Cadena s) = Cadena (limpiarCadena s)"
| "limpiarValor (Arreglo xs) = limpiarEntrada (Arreglo xs)"
| "limpiarValor (Objeto pr ps) = limpiarEntrada (Objeto pr ps)"
| "limpiarValor v = v"

text \<open>
  The leaves of a value (every value in it that is neither an array nor an object),
  each with the path of keys that leads to it. What hangs under an object's
  prototype is listed under the key \<^verbatim>\<open>__proto__\<close>.
\<close>

datatype paso = Indice nat | Clave cadena

definition bajo :: "paso \<Rightarrow> (paso list \<times> valor) list \<Rightarrow> (paso list \<times> valor) list" where
  "bajo st hs = map (\<lambda>(p, h). (st # p, h)) hs"

fun hojas :: "valor \<Rightarrow> (paso list \<times> valor) list"
  and hojas_arreglo :: "nat \<Rightarrow> valor list \<Rightarrow> (paso list \<times> valor) list"
  and hojas_props :: "(cadena \<times> valor) list \<Rightarrow> (paso list \<times> valor) list" where
  "hojas (Arreglo xs) = hojas_arreglo 0 xs"
| "hojas (Objeto pr ps) =
     (case pr of None \<Rightarrow> [] | Some q \<Rightarrow> bajo (Clave clave_proto) (hojas q)) @ hojas_props ps"
| "hojas v = [([], v)]"
| "hojas_arreglo i [] = []"
| "hojas_arreglo i (v # vs) = bajo (Indice i) (hojas v) @ hojas_arreglo (Suc i) vs"
| "hojas_props [] = []"
| "hojas_props ((k, v) # ps) = bajo (Clave k) (hojas v) @ hojas_props ps"

text \<open>What the sanitizer does to a leaf: a string is cleaned, anything else is kept.\<close>

fun limpiarHoja :: "valor \<Rightarrow> valor" where
  "limpiarHoja (Cadena s) = Cadena (limpiarCadena s)"
| "limpiarHoja v = v"

section \<open>validarNumeroTelefono\<close>

text \<open>
  \<^verbatim>\<open>\d\<close> is \<^verbatim>\<open>[0-9]\<close>; \<^verbatim>\<open>\s\<close> is the white space and the line terminators of
  ECMAScript: tab, line feed, vertical tab, form feed, carriage return, space,
  no-break space, U+1680, U+2000 to U+200A, U+2028, U+2029, U+202F, U+205F, U+3000
  and U+FEFF.
\<close>

definition es_digito :: "unidad \<Rightarrow> bool" where
  "es_digito c = (0x30 \<le> c \<and> c \<le> 0x39)"

definition es_espacio :: "unidad \<Rightarrow> bool" where
  "es_espacio c =
     ((0x09 \<le> c \<and> c \<le> 0x0D) \<or> c = 0x20 \<or> c = 0xA0 \<or> c = 0x1680
      \<or> (0x2000 \<le> c \<and> c \<le> 0x200A) \<or> c = 0x2028 \<or> c = 0x2029 \<or> c = 0x202F
      \<or> c = 0x205F \<or> c = 0x3000 \<or> c = 0xFEFF)"

text \<open>The class \<^verbatim>\<open>[\d\s\-\+\(\)]\<close> and the pattern \<^verbatim>\<open>/^[\d\s\-\+\(\)]{7,20}$/\<close>.\<close>

definition en_clase :: "unidad \<Rightarrow> bool" where
  "en_clase c = (es_digito c \<or> es_espacio c \<or> c = 0x2D \<or> c = 0x2B \<or> c = 0x28 \<or> c = 0x29)"

definition patron_test :: "cadena \<Rightarrow> bool" where
  "patron_test s = (7 \<le> length s \<and> length s \<le> 20 \<and> list_all en_clase s)"

definition validarNumeroTelefono :: "cadena \<Rightarrow> bool" where
  "validarNumeroTelefono numero = patron_test (filter (\<lambda>c. \<not> es_espacio c) numero)"

section \<open>Exceptions\<close>

text \<open>
  What a \<^verbatim>\<open>catch\<close> block or the error middleware reads of the value it is given:
  its \<^verbatim>\<open>message\<close>, its \<^verbatim>\<open>stack\<close> and, for the errors of the body parser, its
  \<^verbatim>\<open>type\<close>. A call that may throw, or a promise that may reject, returns
  \<open>excepcion + 'a\<close>.
\<close>

record excepcion =
  e_message :: cadena
  e_stack :: cadena
  e_type :: "cadena option"

text \<open>An error that has a message and nothing else to tell.\<close>

definition error_de :: "cadena \<Rightarrow> excepcion" where
  "error_de m = \<lparr>e_message = m, e_stack = [], e_type = None\<rparr>"

section \<open>generarToken and verificarToken\<close>

text \<open>
  \<^verbatim>\<open>jwt.sign\<close> and \<^verbatim>\<open>jwt.verify\<close> belong to the jsonwebtoken package; the two
  functions take them as arguments. \<open>secreto\<close> is \<^verbatim>\<open>JWT_SECRET\<close>, and the option
  \<^verbatim>\<open>{ expiresIn: '24h' }\<close> is passed as the span it denotes, in seconds.
\<close>

definition generarToken :: "('d \<Rightarrow> cadena \<Rightarrow> nat \<Rightarrow> 't) \<Rightarrow> cadena \<Rightarrow> 'd \<Rightarrow> 't" where
  "generarToken jwt_sign secreto datos = jwt_sign datos secreto (24 * 60 * 60)"

definition verificarToken :: "('t \<Rightarrow> cadena \<Rightarrow> excepcion + 'c) \<Rightarrow> cadena \<Rightarrow> 't \<Rightarrow> 'c option" where
  "verificarToken jwt_verify secreto token =
     (case jwt_verify token secreto of Inl error \<Rightarrow> None | Inr datos \<Rightarrow> Some datos)"

text \<open>The payload that \<^verbatim>\<open>/api/auth\<close> signs.\<close>

record datos_token =
  usuario :: cadena
  permisos :: "cadena list"

text \<open>
  The payload of a token as verification returns it and \<^verbatim>\<open>req.usuario\<close> keeps it:
  what was signed, with the times of issue and of expiry (in seconds) that signing
  adds.
\<close>

record carga =
  c_usuario :: cadena
  c_permisos :: "cadena list"
  c_iat :: nat
  c_exp :: nat

subsection \<open>The token library\<close>

text \<open>
  Modelled from the spec: the tokens of the jsonwebtoken package, which is not among
  the sources. The spec's data model has an access token encode
  \<open>{subject, permissions, issued_at, expires_at}\<close> under a signature, with
  \<open>expires_at\<close> fixed at issuance, and calls a token valid iff the signature
  verifies and the current time is before \<open>expires_at\<close>. A token is a payload
  with a signature; a presented string that does not decode to such a pair is
  \<open>Malformado\<close>. The signature function \<open>firma\<close> is left open and the clock
  \<open>ahora\<close> counts seconds.
\<close>

datatype 'f token = Malformado | Firmado carga 'f

text \<open>
  Modelled from the spec: \<^verbatim>\<open>jwt.sign\<close> of the jsonwebtoken package, which is not among
  the sources. Issuing fixes \<open>issued_at\<close> at the clock's time and \<open>expires_at\<close> at
  that time plus the span asked for, and signs the payload with the secret.
\<close>

definition jsonwebtoken_sign :: "(cadena \<Rightarrow> carga \<Rightarrow> 'f) \<Rightarrow> nat \<Rightarrow> datos_token \<Rightarrow> cadena \<Rightarrow> nat \<Rightarrow> 'f token" where
  "jsonwebtoken_sign firma ahora datos secreto expiresIn =
     (let c = \<lparr>c_usuario = usuario datos, c_permisos = permisos datos,
                c_iat = ahora, c_exp = ahora + expiresIn\<rparr>
      in Firmado c (firma secreto c))"

text \<open>
  Modelled from the spec: \<^verbatim>\<open>jwt.verify\<close> of the jsonwebtoken package, which is not
  among the sources. It returns the payload of a token that decodes, whose signature
  is the secret's and whose \<open>expires_at\<close> is after the clock's time, and throws
  otherwise.
\<close>

definition jsonwebtoken_verify :: "(cadena \<Rightarrow> carga \<Rightarrow> 'f) \<Rightarrow> nat \<Rightarrow> 'f token \<Rightarrow> cadena \<Rightarrow> excepcion + carga" where
  "jsonwebtoken_verify firma ahora token secreto =
     (case token of
        Malformado \<Rightarrow> Inl (error_de (js ''jwt malformed''))
      | Firmado c f \<Rightarrow>
          if f \<noteq> firma secreto c then Inl (error_de (js ''invalid signature''))
          else if c_exp c \<le> ahora then Inl (error_de (js ''jwt expired''))
          else Inr c)"

section \<open>The module's state and the client's events\<close>

record infoMensaje =
  de :: cadena
  cuerpo :: cadena
  esGrupo :: bool
  nombreGrupo :: cadena
  autor :: cadena
  nombreAutor :: cadena
  numeroAutor :: cadena
  idMensaje :: cadena
  marcaTiempo :: cadena

text \<open>
  \<open>temporizadores\<close> holds the delays (in milliseconds) of the timers that
  \<^verbatim>\<open>setTimeout\<close> has scheduled; the other fields are the module's variables.
\<close>

record estado =
  estadoBot :: cadena
  codigoQR :: "cadena option"
  clienteListo :: bool
  mensajesEntrantes :: "infoMensaje list"
  temporizadores :: "nat list"

definition estado_inicial :: estado where
  "estado_inicial = \<lparr>estadoBot = js ''inicializando'', codigoQR = None, clienteListo = False,
     mensajesEntrantes = [], temporizadores = []\<rparr>"

text \<open>
  The events \<^verbatim>\<open>qr\<close>, \<^verbatim>\<open>loading_screen\<close>, \<^verbatim>\<open>authenticated\<close>, \<^verbatim>\<open>auth_failure\<close>,
  \<^verbatim>\<open>ready\<close> and \<^verbatim>\<open>disconnected\<close> with their arguments; the percentage of
  \<^verbatim>\<open>loading_screen\<close> is given as the text that the template literal prints.
\<close>

datatype evento = Qr cadena | LoadingScreen cadena cadena | Authenticated
  | AuthFailure cadena | Ready | Disconnected cadena

fun manejar :: "evento \<Rightarrow> estado \<Rightarrow> estado" where
  "manejar (Qr qr) s = s\<lparr>codigoQR := Some qr, estadoBot := js ''esperando_qr''\<rparr>"
| "manejar (LoadingScreen porcentaje mensaje) s = s\<lparr>estadoBot := js ''cargando_'' @ porcentaje\<rparr>"
| "manejar Authenticated s = s\<lparr>estadoBot := js ''autenticado''\<rparr>"
| "manejar (AuthFailure mensaje) s = s\<lparr>estadoBot := js ''error_autenticacion'', codigoQR := None\<rparr>"
| "manejar Ready s = s\<lparr>clienteListo := True, estadoBot := js ''conectado'', codigoQR := None\<rparr>"
| "manejar (Disconnected razon) s =
     s\<lparr>clienteListo := False, estadoBot := js ''desconectado'', codigoQR := None,
       temporizadores := temporizadores s @ [30000]\<rparr>"

text \<open>A run of the state events, from the first to the last.\<close>

fun es_desconexion :: "evento \<Rightarrow> bool" where
  "es_desconexion (Disconnected razon) = True"
| "es_desconexion e = False"

definition correr :: "evento list \<Rightarrow> estado \<Rightarrow> estado" where
  "correr evs s = foldl (\<lambda>s e. manejar e s) s evs"

section \<open>The message event\<close>

text \<open>
  What the handler reads of the message, of the chat and of a contact.
  \<open>m_getChat\<close> is what the message's own \<^verbatim>\<open>getChat()\<close> answers.
\<close>

record chat =
  chat_id :: cadena
  chat_name :: cadena
  chat_isGroup :: bool
  chat_participants :: nat

record contacto =
  contacto_id :: cadena
  contacto_user :: cadena
  contacto_name :: "cadena option"
  contacto_pushname :: "cadena option"
  contacto_number :: cadena
  contacto_isGroup :: bool
  contacto_isMe :: bool

record mensaje =
  m_from :: cadena
  m_body :: cadena
  m_author :: "cadena option"
  m_id :: cadena
  m_getChat :: "excepcion + chat"

text \<open>
  The handler of \<^verbatim>\<open>message\<close> is an \<^verbatim>\<open>async\<close> function. When the event is emitted it
  runs as far as its first \<^verbatim>\<open>await\<close>: a message from \<^verbatim>\<open>status@broadcast\<close> returns at
  once, any other builds \<^verbatim>\<open>infoMensaje\<close> (\<open>ahora\<close> is the text of
  \<^verbatim>\<open>new Date().toISOString()\<close>), and one that is not from a group goes straight to
  the \<^verbatim>\<open>push\<close>. A message from a group is suspended at \<^verbatim>\<open>await mensaje.getChat()\<close>
  and, when it has an author, once more at \<^verbatim>\<open>await cliente.getContactById(...)\<close>;
  it goes on when the awaited promise settles, after whatever was handled in
  between. With the fields typed as above nothing in the outer \<^verbatim>\<open>try\<close> throws.
\<close>

definition info_inicial :: "cadena \<Rightarrow> mensaje \<Rightarrow> infoMensaje" where
  "info_inicial ahora m =
     \<lparr>de = m_from m, cuerpo = take 1000 (m_body m), esGrupo = suffix (js ''@g.us'') (m_from m),
      nombreGrupo = [], autor = o_bien (m_author m) [], nombreAutor = [], numeroAutor = [],
      idMensaje = m_id m, marcaTiempo = ahora\<rparr>"

text \<open>A suspended handler: the promise it awaits, its message and its \<^verbatim>\<open>infoMensaje\<close> so far.\<close>

datatype suspendido = EsperaChat mensaje infoMensaje | EsperaContacto mensaje infoMensaje

text \<open>
  The inner \<^verbatim>\<open>try\<close>, from the promise that has settled to the next \<^verbatim>\<open>await\<close>
  (\<open>Inr\<close>) or to the end of the block, with the record that goes to the \<^verbatim>\<open>push\<close>
  (\<open>Inl\<close>). A lookup that fails is logged and keeps what was set before it.
\<close>

fun reanudar :: "(cadena \<Rightarrow> excepcion + contacto option) \<Rightarrow> suspendido
    \<Rightarrow> infoMensaje + suspendido" where
  "reanudar getContactById (EsperaChat m info) =
     (case m_getChat m of
        Inl error \<Rightarrow> Inl info
      | Inr ch \<Rightarrow>
          (let info1 = info\<lparr>nombreGrupo := chat_name ch\<rparr> in
           if o_bien (m_author m) [] \<noteq> [] then Inr (EsperaContacto m info1) else Inl info1))"
| "reanudar getContactById (EsperaContacto m info) =
     (case getContactById (o_bien (m_author m) []) of
        Inl error \<Rightarrow> Inl info
      | Inr None \<Rightarrow> Inl info
      | Inr (Some c) \<Rightarrow>
          Inl (info\<lparr>nombreAutor := o_bien (contacto_name c) (o_bien (contacto_pushname c) []),
                     numeroAutor := contacto_user c\<rparr>))"

text \<open>\<^verbatim>\<open>mensajesEntrantes.push(infoMensaje)\<close> and the \<^verbatim>\<open>slice(-100)\<close> after it.\<close>

definition agregar :: "infoMensaje \<Rightarrow> infoMensaje list \<Rightarrow> infoMensaje list" where
  "agregar info ms =
     (let ms1 = ms @ [info]
      in if length ms1 > 100 then drop (length ms1 - 100) ms1 else ms1)"

text \<open>
  What happens at the client: a message arrives (\<open>Mensaje ahora m\<close>), or the promise
  settles that the \<open>i\<close>-th of the suspended handlers awaits (\<open>Resuelta i\<close>).
  \<open>avanzar\<close> is what the handler does then, up to its \<^verbatim>\<open>push\<close>: the record it pushes, if
  it gets there, and the handlers that are suspended afterwards. \<open>getContactById\<close>
  is the client's lookup.
\<close>

datatype suceso = Mensaje cadena mensaje | Resuelta nat

fun avanzar :: "(cadena \<Rightarrow> excepcion + contacto option) \<Rightarrow> suceso \<Rightarrow> suspendido list
    \<Rightarrow> infoMensaje option \<times> suspendido list" where
  "avanzar getContactById (Mensaje ahora m) ts =
     (if m_from m = js ''status@broadcast'' then (None, ts)
      else if suffix (js ''@g.us'') (m_from m) then (None, ts @ [EsperaChat m (info_inicial ahora m)])
      else (Some (info_inicial ahora m), ts))"
| "avanzar getContactById (Resuelta i) ts =
     (if i < length ts then
        (case reanudar getContactById (ts ! i) of
           Inl info \<Rightarrow> (Some info, take i ts @ drop (Suc i) ts)
         | Inr t \<Rightarrow> (None, ts[i := t]))
      else (None, ts))"

text \<open>The module's state with the suspended handlers, after one such event and after a run of them.\<close>

definition al_suceso :: "(cadena \<Rightarrow> excepcion + contacto option) \<Rightarrow> suceso
    \<Rightarrow> estado \<times> suspendido list \<Rightarrow> estado \<times> suspendido list" where
  "al_suceso getContactById e c =
     (case avanzar getContactById e (snd c) of
        (None, ts) \<Rightarrow> (fst c, ts)
      | (Some info, ts) \<Rightarrow>
          ((fst c)\<lparr>mensajesEntrantes := agregar info (mensajesEntrantes (fst c))\<rparr>, ts))"

definition al_recibir :: "(cadena \<Rightarrow> excepcion + contacto option) \<Rightarrow> suceso list
    \<Rightarrow> estado \<times> suspendido list \<Rightarrow> estado \<times> suspendido list" where
  "al_recibir getContactById evs c = foldl (\<lambda>c e. al_suceso getContactById e c) c evs"

section \<open>Requests, responses and the outside world\<close>

text \<open>
  \<^verbatim>\<open>res.status(n).json(v)\<close> is the response with status \<open>n\<close> and body \<open>v\<close>;
  \<^verbatim>\<open>res.json(v)\<close> alone has status 200. \<open>obj\<close> writes an object literal.
\<close>

record respuesta =
  r_status :: nat
  r_json :: valor

definition obj :: "(string \<times> valor) list \<Rightarrow> valor" where
  "obj ps = Objeto None (map (\<lambda>(k, v). (js k, v)) ps)"

text \<open>
  What the middlewares and handlers read of a request, after the body parsers:
  the two headers that may carry the token, the parsed body, \<^verbatim>\<open>req.query.limpiar\<close>,
  \<^verbatim>\<open>req.params.numero\<close>, and \<^verbatim>\<open>req.usuario\<close>, which the authentication sets.
\<close>

record 'd peticion =
  authorization :: "cadena option"
  x_api_key :: "cadena option"
  body :: valor
  query_limpiar :: valor
  params_numero :: cadena
  req_usuario :: "'d option"

text \<open>
  The configuration read from the environment. \<^verbatim>\<open>MAX_FILE_SIZE\<close> is given by the
  number of megabytes it denotes and by the text a template literal prints for it.
\<close>

record config =
  jwt_secret :: cadena
  max_file_size :: nat
  max_file_size_txt :: cadena
  rate_limit_window :: valor

datatype contenido = Texto valor | Archivo cadena valor

text \<open>
  What the packages answer while one request is handled: whether each rate limiter
  admits it, the errors that the route's validation chain found
  (\<^verbatim>\<open>validationResult(req).array()\<close>), the \<^verbatim>\<open>TypeError\<close> that the engine throws at an
  operation on a value of the wrong type, and the results of the calls to bcrypt,
  to the WhatsApp client, to \<^verbatim>\<open>path\<close> and \<^verbatim>\<open>fs\<close>, and of \<^verbatim>\<open>MessageMedia.fromFilePath\<close>
  (a media object, given by its data).
\<close>

record entorno =
  admite_general :: bool
  admite_mensajes :: bool
  errores :: "valor list"
  error_motor :: excepcion
  bcrypt_compare :: "valor \<Rightarrow> excepcion + bool"
  isRegisteredUser :: "cadena \<Rightarrow> excepcion + bool"
  path_resolve :: "cadena \<Rightarrow> cadena"
  existsSync :: "cadena \<Rightarrow> bool"
  statSync :: "cadena \<Rightarrow> excepcion + nat"
  fromFilePath :: "cadena \<Rightarrow> excepcion + cadena"
  sendMessage :: "cadena \<Rightarrow> contenido \<Rightarrow> excepcion + cadena"
  getChats :: "excepcion + chat list"
  getContacts :: "excepcion + contacto list"

text \<open>The calls a handler makes to the outside, in the order it makes them.\<close>

datatype efecto = ClienteIsRegisteredUser cadena | PathResolve cadena | FsExistsSync cadena
  | FsStatSync cadena | MediaFromFilePath cadena | ClienteSendMessage cadena contenido

fun es_cliente :: "efecto \<Rightarrow> bool" where
  "es_cliente (ClienteIsRegisteredUser c) = True"
| "es_cliente (ClienteSendMessage c m) = True"
| "es_cliente e = False"

section \<open>The middlewares\<close>

text \<open>
  A middleware answers the request (\<open>Inl\<close>) or passes it on with \<^verbatim>\<open>next()\<close>
  (\<open>Inr\<close>). The two rate limiters are express-rate-limit's; one that does not
  admit the request answers 429 with its configured message.
\<close>

definition limitadorGeneral :: "config \<Rightarrow> entorno \<Rightarrow> 'd peticion \<Rightarrow> respuesta + 'd peticion" where
  "limitadorGeneral cfg ent req =
     (if admite_general ent then Inr req
      else Inl \<lparr>r_status = 429, r_json = obj
        [(''error'', Cadena (js ''Demasiadas solicitudes, intenta de nuevo m'' @ [0xE1] @ js ''s tarde'')),
         (''retryAfter'', rate_limit_window cfg)]\<rparr>)"

definition limitadorMensajes :: "entorno \<Rightarrow> 'd peticion \<Rightarrow> respuesta + 'd peticion" where
  "limitadorMensajes ent req =
     (if admite_mensajes ent then Inr req
      else Inl \<lparr>r_status = 429, r_json = obj
        [(''error'', Cadena (js ''L'' @ [0xED] @ js ''mite de mensajes excedido, espera un minuto'')),
         (''retryAfter'', Numero 1)]\<rparr>)"

text \<open>
  \<^verbatim>\<open>req.headers.authorization?.replace('Bearer ', '') || req.headers['x-api-key']\<close>
\<close>

definition token_de :: "'d peticion \<Rightarrow> cadena option" where
  "token_de req =
     (case authorization req of
        None \<Rightarrow> x_api_key req
      | Some a \<Rightarrow>
          (let t = reemplazar (js ''Bearer '') [] a in if t = [] then x_api_key req else Some t))"

text \<open>
  \<open>jwt_verify\<close> is the library's verification, which answers the token's payload, a
  value, or throws; \<open>verificarToken\<close> answers \<^verbatim>\<open>null\<close> (here \<open>None\<close>) when it throws.
  \<^verbatim>\<open>!token\<close> holds of a missing token and of the empty string, and \<^verbatim>\<open>!datosToken\<close> of
  \<^verbatim>\<open>null\<close> and of a payload that is not truthy.
\<close>

definition requiereAutenticacion :: "(cadena \<Rightarrow> cadena \<Rightarrow> excepcion + valor) \<Rightarrow> config
    \<Rightarrow> valor peticion \<Rightarrow> respuesta + valor peticion" where
  "requiereAutenticacion jwt_verify cfg req =
     (case token_de req of
        Some (c # cs) \<Rightarrow>
          (let datosToken = verificarToken jwt_verify (jwt_secret cfg) (c # cs) in
           if \<not> (case datosToken of None \<Rightarrow> False | Some d \<Rightarrow> verdadero d) then
             Inl \<lparr>r_status = 401, r_json = obj
               [(''exito'', Booleano False),
                (''error'', Cadena (js ''Token inv'' @ [0xE1] @ js ''lido o expirado''))]\<rparr>
           else Inr (req\<lparr>req_usuario := datosToken\<rparr>))
      | _ \<Rightarrow> Inl \<lparr>r_status = 401, r_json = obj
          [(''exito'', Booleano False),
           (''error'', Cadena (js ''Token de autenticaci'' @ [0xF3] @ js ''n requerido'')),
           (''mensaje'', Cadena (js ''Incluye el token en el header Authorization: Bearer <token>''))]\<rparr>)"

definition requiereConexion :: "estado \<Rightarrow> 'd peticion \<Rightarrow> respuesta + 'd peticion" where
  "requiereConexion s req =
     (if \<not> clienteListo s \<or> estadoBot s \<noteq> js ''conectado'' then
        Inl \<lparr>r_status = 503, r_json = obj
          [(''exito'', Booleano False),
           (''error'', Cadena (js ''WhatsApp no est'' @ [0xE1] @ js '' conectado'')),
           (''estado'', Cadena (estadoBot s)),
           (''mensaje'', Cadena
              (if estadoBot s = js ''esperando_qr''
               then js ''Escanea el c'' @ [0xF3] @ js ''digo QR primero''
               else js ''Espera a que WhatsApp se conecte''))]\<rparr>
      else Inr req)"

section \<open>The handlers\<close>

definition responder :: "nat \<Rightarrow> (string \<times> valor) list \<Rightarrow> respuesta" where
  "responder n ps = \<lparr>r_status = n, r_json = obj ps\<rparr>"

subsection \<open>POST /api/enviar-mensaje\<close>

text \<open>
  The handler returns the calls it made, in order, and its response. The body of
  its \<^verbatim>\<open>try\<close> is \<open>intento_enviar\<close>, which ends in a response or in the exception
  thrown; \<open>despachar\<close> is the part from \<^verbatim>\<open>if (rutaArchivo)\<close> on and \<open>enviar\<close> the
  call of \<^verbatim>\<open>cliente.sendMessage\<close> with what follows it (the log line takes
  \<^verbatim>\<open>mensaje.substring\<close>, which throws unless \<^verbatim>\<open>mensaje\<close> is a string).
\<close>

definition enviar :: "entorno \<Rightarrow> efecto list \<Rightarrow> cadena \<Rightarrow> contenido \<Rightarrow> valor
    \<Rightarrow> efecto list \<times> (excepcion + respuesta)" where
  "enviar ent tr chatId c mensaje =
     (case sendMessage ent chatId c of
        Inl error \<Rightarrow> (tr @ [ClienteSendMessage chatId c], Inl error)
      | Inr idm \<Rightarrow>
          (case mensaje of
             Cadena m \<Rightarrow>
               (tr @ [ClienteSendMessage chatId c],
                Inr (responder 200
                  [(''exito'', Booleano True), (''idMensaje'', Cadena idm),
                   (''mensaje'', Cadena (js ''Mensaje enviado correctamente''))]))
           | _ \<Rightarrow> (tr @ [ClienteSendMessage chatId c], Inl (error_motor ent))))"

definition despachar :: "config \<Rightarrow> entorno \<Rightarrow> cadena \<Rightarrow> valor \<Rightarrow> valor
    \<Rightarrow> efecto list \<times> (excepcion + respuesta)" where
  "despachar cfg ent chatId mensaje rutaArchivo =
     (if verdadero rutaArchivo then
        (case rutaArchivo of
           Cadena ruta \<Rightarrow>
             (let rutaAbsoluta = path_resolve ent ruta in
              if \<not> existsSync ent rutaAbsoluta then
                ([PathResolve ruta, FsExistsSync rutaAbsoluta],
                 Inr (responder 400
                   [(''exito'', Booleano False), (''error'', Cadena (js ''El archivo no existe''))]))
              else
                (case statSync ent rutaAbsoluta of
                   Inl error \<Rightarrow>
                     ([PathResolve ruta, FsExistsSync rutaAbsoluta, FsStatSync rutaAbsoluta], Inl error)
                 | Inr tam \<Rightarrow>
                     if tam > max_file_size cfg * 1024 * 1024 then
                       ([PathResolve ruta, FsExistsSync rutaAbsoluta, FsStatSync rutaAbsoluta],
                        Inr (responder 400
                          [(''exito'', Booleano False),
                           (''error'', Cadena (js ''El archivo es demasiado grande. M'' @ [0xE1]
                              @ js ''ximo '' @ max_file_size_txt cfg @ js ''MB''))]))
                     else
                       (case fromFilePath ent rutaAbsoluta of
                          Inl error \<Rightarrow>
                            ([PathResolve ruta, FsExistsSync rutaAbsoluta, FsStatSync rutaAbsoluta,
                              MediaFromFilePath rutaAbsoluta], Inl error)
                        | Inr media \<Rightarrow>
                            enviar ent
                              [PathResolve ruta, FsExistsSync rutaAbsoluta, FsStatSync rutaAbsoluta,
                               MediaFromFilePath rutaAbsoluta]
                              chatId (Archivo media mensaje) mensaje)))
         | _ \<Rightarrow> ([], Inl (error_motor ent)))
      else enviar ent [] chatId (Texto mensaje) mensaje)"

definition intento_enviar :: "config \<Rightarrow> entorno \<Rightarrow> 'd peticion
    \<Rightarrow> efecto list \<times> (excepcion + respuesta)" where
  "intento_enviar cfg ent req =
     (let datosSanitizados = limpiarEntrada (body req) in
      if datosSanitizados = Undefined \<or> datosSanitizados = Null then ([], Inl (error_motor ent))
      else
        (let destino = leer datosSanitizados (js ''destino'');
             mensaje = leer datosSanitizados (js ''mensaje'');
             rutaArchivo = leer datosSanitizados (js ''rutaArchivo'');
             esGrupo' = por_defecto (leer datosSanitizados (js ''esGrupo'')) (Booleano False)
         in case destino of
              Cadena d \<Rightarrow>
                if \<not> verdadero esGrupo' \<and> \<not> validarNumeroTelefono d then
                  ([], Inr (responder 400
                     [(''exito'', Booleano False),
                      (''error'', Cadena (js ''Formato de n'' @ [0xFA] @ js ''mero de tel'' @ [0xE9]
                         @ js ''fono inv'' @ [0xE1] @ js ''lido''))]))
                else
                  (let chatId =
                         (if verdadero esGrupo'
                          then (if suffix (js ''@g.us'') d then d else d @ js ''@g.us'')
                          else (if suffix (js ''@c.us'') d then d else d @ js ''@c.us''))
                   in if \<not> verdadero esGrupo' then
                        (case isRegisteredUser ent chatId of
                           Inl error \<Rightarrow> ([ClienteIsRegisteredUser chatId], Inl error)
                         | Inr estaRegistrado \<Rightarrow>
                             if \<not> estaRegistrado then
                               ([ClienteIsRegisteredUser chatId],
                                Inr (responder 400
                                  [(''exito'', Booleano False),
                                   (''error'', Cadena (js ''El n'' @ [0xFA] @ js ''mero no est'' @ [0xE1]
                                      @ js '' registrado en WhatsApp''))]))
                             else
                               (case despachar cfg ent chatId mensaje rutaArchivo of
                                  (tr, r) \<Rightarrow> (ClienteIsRegisteredUser chatId # tr, r)))
                      else despachar cfg ent chatId mensaje rutaArchivo)
            | _ \<Rightarrow> ([], Inl (error_motor ent))))"

definition manejador_enviar :: "config \<Rightarrow> entorno \<Rightarrow> 'd peticion \<Rightarrow> efecto list \<times> respuesta" where
  "manejador_enviar cfg ent req =
     (if errores ent \<noteq> [] then
        ([], responder 400 [(''exito'', Booleano False), (''errores'', Arreglo (errores ent))])
      else
        (case intento_enviar cfg ent req of
           (tr, Inr r) \<Rightarrow> (tr, r)
         | (tr, Inl error) \<Rightarrow>
             (tr, responder 500
                [(''exito'', Booleano False),
                 (''error'', Cadena (js ''Error al enviar mensaje: '' @ e_message error))])))"

subsection \<open>POST /api/auth\<close>

definition manejador_auth :: "(datos_token \<Rightarrow> cadena \<Rightarrow> nat \<Rightarrow> cadena) \<Rightarrow> config \<Rightarrow> entorno
    \<Rightarrow> 'd peticion \<Rightarrow> respuesta" where
  "manejador_auth jwt_sign cfg ent req =
     (if errores ent \<noteq> [] then
        responder 400 [(''exito'', Booleano False), (''errores'', Arreglo (errores ent))]
      else
        (case (let datos = limpiarEntrada (body req) in
               if datos = Undefined \<or> datos = Null then Inl (error_motor ent)
               else
                 (case bcrypt_compare ent (leer datos (js ''contrasena'')) of
                    Inl error \<Rightarrow> Inl error
                  | Inr esValida \<Rightarrow>
                      if \<not> esValida then
                        Inr (responder 401
                          [(''exito'', Booleano False),
                           (''error'', Cadena (js ''Contrase'' @ [0xF1] @ js ''a incorrecta''))])
                      else
                        Inr (responder 200
                          [(''exito'', Booleano True),
                           (''token'', Cadena (generarToken jwt_sign (jwt_secret cfg)
                              \<lparr>usuario = js ''api_user'',
                               permisos = [js ''enviar_mensajes'', js ''leer_mensajes'']\<rparr>)),
                           (''expira'', Cadena (js ''24 horas'')),
                           (''mensaje'', Cadena (js ''Autenticaci'' @ [0xF3] @ js ''n exitosa''))])))
         of
           Inl error \<Rightarrow>
             responder 500
               [(''exito'', Booleano False), (''error'', Cadena (js ''Error interno del servidor''))]
         | Inr r \<Rightarrow> r))"

subsection \<open>GET /api/grupos and GET /api/contactos\<close>

definition manejador_grupos :: "entorno \<Rightarrow> respuesta" where
  "manejador_grupos ent =
     (case getChats ent of
        Inl error \<Rightarrow>
          responder 500 [(''exito'', Booleano False), (''error'', Cadena (e_message error))]
      | Inr chats \<Rightarrow>
          responder 200
            [(''exito'', Booleano True),
             (''grupos'', Arreglo
                (map (\<lambda>grupo. obj
                        [(''id'', Cadena (chat_id grupo)), (''nombre'', Cadena (chat_name grupo)),
                         (''participantes'', Numero (real (chat_participants grupo)))])
                   (filter chat_isGroup chats)))])"

definition manejador_contactos :: "entorno \<Rightarrow> respuesta" where
  "manejador_contactos ent =
     (case getContacts ent of
        Inl error \<Rightarrow>
          responder 500 [(''exito'', Booleano False), (''error'', Cadena (e_message error))]
      | Inr contactos \<Rightarrow>
          responder 200
            [(''exito'', Booleano True),
             (''contactos'', Arreglo
                (map (\<lambda>c. obj
                        [(''id'', Cadena (contacto_id c)),
                         (''nombre'', Cadena (o_bien (contacto_name c) (o_bien (contacto_pushname c) []))),
                         (''numero'', Cadena (contacto_number c))])
                   (take 100
                      (filter (\<lambda>c. \<not> contacto_isGroup c \<and> \<not> contacto_isMe c
                                  \<and> o_bien (contacto_name c) [] \<noteq> [])
                         contactos))))])"

subsection \<open>GET /api/mensajes-recibidos\<close>

definition json_de_info :: "infoMensaje \<Rightarrow> valor" where
  "json_de_info i = obj
     [(''de'', Cadena (de i)), (''cuerpo'', Cadena (cuerpo i)), (''esGrupo'', Booleano (esGrupo i)),
      (''nombreGrupo'', Cadena (nombreGrupo i)), (''autor'', Cadena (autor i)),
      (''nombreAutor'', Cadena (nombreAutor i)), (''numeroAutor'', Cadena (numeroAutor i)),
      (''idMensaje'', Cadena (idMensaje i)), (''marcaTiempo'', Cadena (marcaTiempo i))]"

text \<open>The handler returns its response and the state it leaves.\<close>

definition manejador_mensajes_recibidos :: "'d peticion \<Rightarrow> estado \<Rightarrow> respuesta \<times> estado" where
  "manejador_mensajes_recibidos req s =
     (if query_limpiar req = Cadena (js ''true'') then
        (let copiaMensajes = mensajesEntrantes s in
         (responder 200
            [(''exito'', Booleano True), (''mensajesLimpiados'', Booleano True),
             (''mensajesEliminados'', Numero (real (length copiaMensajes)))],
          s\<lparr>mensajesEntrantes := []\<rparr>))
      else
        (responder 200
           [(''exito'', Booleano True),
            (''mensajes'', Arreglo (map json_de_info (mensajesEntrantes s)))],
         s))"

subsection \<open>GET /api/verificar-numero/:numero\<close>

definition manejador_verificar :: "entorno \<Rightarrow> 'd peticion \<Rightarrow> respuesta" where
  "manejador_verificar ent req =
     (if errores ent \<noteq> [] then
        responder 400 [(''exito'', Booleano False), (''errores'', Arreglo (errores ent))]
      else
        (let numero = params_numero req in
         if \<not> validarNumeroTelefono numero then
           responder 400
             [(''exito'', Booleano False),
              (''error'', Cadena (js ''Formato de n'' @ [0xFA] @ js ''mero inv'' @ [0xE1] @ js ''lido''))]
         else
           (case isRegisteredUser ent (numero @ js ''@c.us'') of
              Inl error \<Rightarrow>
                responder 500 [(''exito'', Booleano False), (''error'', Cadena (e_message error))]
            | Inr estaRegistrado \<Rightarrow>
                responder 200
                  [(''exito'', Booleano True), (''existe'', Booleano estaRegistrado),
                   (''numero'', Cadena numero)])))"

subsection \<open>The error middleware\<close>

definition manejador_errores :: "excepcion \<Rightarrow> respuesta" where
  "manejador_errores error =
     (if e_type error = Some (js ''entity.too.large'') then
        responder 413 [(''exito'', Booleano False), (''error'', Cadena (js ''Payload demasiado grande''))]
      else
        responder 500 [(''exito'', Booleano False), (''error'', Cadena (js ''Error interno del servidor''))])"

section \<open>The routes\<close>

text \<open>
  A route is the chain of its middlewares, in the order of the call that registers
  it and after the \<^verbatim>\<open>app.use(limitadorGeneral)\<close> that precedes every route, and then
  its handler. (The validation chains of a route answer nothing themselves: they
  leave their errors for the handler.)
\<close>

fun encadenar :: "('r \<Rightarrow> respuesta + 'r) list \<Rightarrow> 'r \<Rightarrow> respuesta + 'r" where
  "encadenar [] req = Inr req"
| "encadenar (mw # mws) req = (case mw req of Inl r \<Rightarrow> Inl r | Inr req1 \<Rightarrow> encadenar mws req1)"

definition ruta_enviar_mensaje :: "(cadena \<Rightarrow> cadena \<Rightarrow> excepcion + valor) \<Rightarrow> config \<Rightarrow> entorno
    \<Rightarrow> estado \<Rightarrow> valor peticion \<Rightarrow> efecto list \<times> respuesta" where
  "ruta_enviar_mensaje jwt_verify cfg ent s req =
     (case encadenar [limitadorGeneral cfg ent, limitadorMensajes ent,
                      requiereAutenticacion jwt_verify cfg, requiereConexion s] req of
        Inl r \<Rightarrow> ([], r)
      | Inr req1 \<Rightarrow> manejador_enviar cfg ent req1)"

definition ruta_grupos :: "(cadena \<Rightarrow> cadena \<Rightarrow> excepcion + valor) \<Rightarrow> config \<Rightarrow> entorno
    \<Rightarrow> estado \<Rightarrow> valor peticion \<Rightarrow> respuesta" where
  "ruta_grupos jwt_verify cfg ent s req =
     (case encadenar [limitadorGeneral cfg ent, requiereAutenticacion jwt_verify cfg,
                      requiereConexion s] req of
        Inl r \<Rightarrow> r
      | Inr req1 \<Rightarrow> manejador_grupos ent)"

definition ruta_contactos :: "(cadena \<Rightarrow> cadena \<Rightarrow> excepcion + valor) \<Rightarrow> config \<Rightarrow> entorno
    \<Rightarrow> estado \<Rightarrow> valor peticion \<Rightarrow> respuesta" where
  "ruta_contactos jwt_verify cfg ent s req =
     (case encadenar [limitadorGeneral cfg ent, requiereAutenticacion jwt_verify cfg,
                      requiereConexion s] req of
        Inl r \<Rightarrow> r
      | Inr req1 \<Rightarrow> manejador_contactos ent)"

definition ruta_mensajes_recibidos :: "(cadena \<Rightarrow> cadena \<Rightarrow> excepcion + valor) \<Rightarrow> config \<Rightarrow> entorno
    \<Rightarrow> estado \<Rightarrow> valor peticion \<Rightarrow> respuesta \<times> estado" where
  "ruta_mensajes_recibidos jwt_verify cfg ent s req =
     (case encadenar [limitadorGeneral cfg ent, requiereAutenticacion jwt_verify cfg] req of
        Inl r \<Rightarrow> (r, s)
      | Inr req1 \<Rightarrow> manejador_mensajes_recibidos req1 s)"

definition ruta_verificar_numero :: "(cadena \<Rightarrow> cadena \<Rightarrow> excepcion + valor) \<Rightarrow> config \<Rightarrow> entorno
    \<Rightarrow> estado \<Rightarrow> valor peticion \<Rightarrow> respuesta" where
  "ruta_verificar_numero jwt_verify cfg ent s req =
     (case encadenar [limitadorGeneral cfg ent, requiereAutenticacion jwt_verify cfg,
                      requiereConexion s] req of
        Inl r \<Rightarrow> r
      | Inr req1 \<Rightarrow> manejador_verificar ent req1)"

text \<open>
  The five routes that \<^verbatim>\<open>requiereAutenticacion\<close> protects, under one name: the calls
  made, the response and the state left.
\<close>

datatype operacion = EnviarMensaje | ListarGrupos | ListarContactos | MensajesRecibidos
  | VerificarNumero

fun ruta :: "(cadena \<Rightarrow> cadena \<Rightarrow> excepcion + valor) \<Rightarrow> config \<Rightarrow> entorno \<Rightarrow> operacion
    \<Rightarrow> estado \<Rightarrow> valor peticion \<Rightarrow> efecto list \<times> respuesta \<times> estado" where
  "ruta jwt_verify cfg ent EnviarMensaje s req =
     (case ruta_enviar_mensaje jwt_verify cfg ent s req of (tr, r) \<Rightarrow> (tr, r, s))"
| "ruta jwt_verify cfg ent ListarGrupos s req = ([], ruta_grupos jwt_verify cfg ent s req, s)"
| "ruta jwt_verify cfg ent ListarContactos s req = ([], ruta_contactos jwt_verify cfg ent s req, s)"
| "ruta jwt_verify cfg ent MensajesRecibidos s req =
     (case ruta_mensajes_recibidos jwt_verify cfg ent s req of (r, s1) \<Rightarrow> ([], r, s1))"
| "ruta jwt_verify cfg ent VerificarNumero s req =
     ([], ruta_verificar_numero jwt_verify cfg ent s req, s)"

section \<open>What the message events append\<close>








section \<open>Concrete inputs\<close>

text \<open>
  A signature function, the payload that \<^verbatim>\<open>/api/auth\<close> signs and the same as issued at
  second 1000; a configuration; an outside world in which every call succeeds; the
  payload as the library decodes it and the same with no permission, and three
  library verifications, one that answers the former for the token \<^verbatim>\<open>abc\<close>, one
  that answers the latter and one that throws; a request to send a text
  and two to send a file, to a number and to a group; a message from a contact, one
  from \<^verbatim>\<open>status@broadcast\<close> and one from a group, with the group's chat, a lookup
  that finds the author, and the records of the first and of the last; a state after a
  disconnection with the record of the first buffered; and an exception of the client.
\<close>

definition firma_ejemplo :: "cadena \<Rightarrow> carga \<Rightarrow> cadena \<times> carga" where
  "firma_ejemplo secreto c = (secreto, c)"

definition datos_ejemplo :: datos_token where
  "datos_ejemplo = \<lparr>usuario = js ''api_user'',
     permisos = [js ''enviar_mensajes'', js ''leer_mensajes'']\<rparr>"

definition carga_ejemplo :: carga where
  "carga_ejemplo = \<lparr>c_usuario = js ''api_user'',
     c_permisos = [js ''enviar_mensajes'', js ''leer_mensajes''], c_iat = 1000, c_exp = 87400\<rparr>"

definition cfg_ejemplo :: config where
  "cfg_ejemplo = \<lparr>jwt_secret = js ''secreto'', max_file_size = 10, max_file_size_txt = js ''10'',
     rate_limit_window = Numero 15\<rparr>"

definition ent_ejemplo :: entorno where
  "ent_ejemplo = \<lparr>admite_general = True, admite_mensajes = True, errores = [],
     error_motor = error_de (js ''TypeError''),
     bcrypt_compare = (\<lambda>v. Inr (v = Cadena (js ''Learsi20''))),
     isRegisteredUser = (\<lambda>chatId. Inr True), path_resolve = (\<lambda>ruta. ruta),
     existsSync = (\<lambda>ruta. True), statSync = (\<lambda>ruta. Inr 2048),
     fromFilePath = (\<lambda>ruta. Inr (js ''datos'')), sendMessage = (\<lambda>chatId c. Inr (js ''ID1'')),
     getChats = Inr [], getContacts = Inr []\<rparr>"

definition usuario_ejemplo :: valor where
  "usuario_ejemplo = obj
     [(''usuario'', Cadena (js ''api_user'')),
      (''permisos'', Arreglo [Cadena (js ''enviar_mensajes''), Cadena (js ''leer_mensajes'')]),
      (''iat'', Numero 1000), (''exp'', Numero 87400)]"

definition usuario_sin_permisos :: valor where
  "usuario_sin_permisos = obj
     [(''usuario'', Cadena (js ''api_user'')), (''permisos'', Arreglo []),
      (''iat'', Numero 1000), (''exp'', Numero 87400)]"

definition verify_ejemplo :: "cadena \<Rightarrow> cadena \<Rightarrow> excepcion + valor" where
  "verify_ejemplo token secreto =
     (if token = js ''abc'' \<and> secreto = js ''secreto'' then Inr usuario_ejemplo
      else Inl (error_de (js ''jwt malformed'')))"

definition verify_sin_permisos :: "cadena \<Rightarrow> cadena \<Rightarrow> excepcion + valor" where
  "verify_sin_permisos token secreto = Inr usuario_sin_permisos"

definition verify_expirado :: "cadena \<Rightarrow> cadena \<Rightarrow> excepcion + valor" where
  "verify_expirado token secreto = Inl (error_de (js ''jwt expired''))"

definition req_ejemplo :: "valor peticion" where
  "req_ejemplo = \<lparr>authorization = Some (js ''Bearer abc''), x_api_key = None,
     body = obj [(''destino'', Cadena (js ''5215551234567'')), (''mensaje'', Cadena (js ''hola''))],
     query_limpiar = Undefined, params_numero = js ''5215551234567'', req_usuario = None\<rparr>"






definition info_ejemplo :: infoMensaje where
  "info_ejemplo = \<lparr>de = js ''5215551234567@c.us'', cuerpo = js ''hola'', esGrupo = False,
     nombreGrupo = [], autor = [], nombreAutor = [], numeroAutor = [], idMensaje = js ''A1'',
     marcaTiempo = js ''t1''\<rparr>"

definition estado_desconectado :: estado where
  "estado_desconectado =
     (manejar (Disconnected (js ''LOGOUT'')) (manejar Ready estado_inicial))
       \<lparr>mensajesEntrantes := [info_ejemplo]\<rparr>"

definition error_ejemplo :: excepcion where
  "error_ejemplo = \<lparr>e_message = js ''Evaluation failed: TypeError: window.Store is undefined''
       @ [0x0A] @ js ''    at __puppeteer_evaluation_script__:2:31'',
     e_stack = js ''Error: Evaluation failed: TypeError: window.Store is undefined''
       @ [0x0A] @ js ''    at ExecutionContext._evaluateInternal (ExecutionContext.js:221:19)'',
     e_type = None\<rparr>"

definition req_archivo :: "valor peticion" where
  "req_archivo = req_ejemplo\<lparr>body := obj
     [(''destino'', Cadena (js ''5215551234567'')), (''mensaje'', Cadena (js ''hola'')),
      (''rutaArchivo'', Cadena (js ''/tmp/foto.png''))]\<rparr>"

definition req_archivo_grupo :: "valor peticion" where
  "req_archivo_grupo = req_ejemplo\<lparr>body := obj
     [(''destino'', Cadena (js ''120363041234567890'')), (''mensaje'', Cadena (js ''hola'')),
      (''rutaArchivo'', Cadena (js ''/tmp/foto.png'')), (''esGrupo'', Booleano True)]\<rparr>"

chapter \<open>Properties\<close>

text \<open>The definitions that a concrete input is evaluated with.\<close>

lemmas evaluacion = js_def obj_def clave_proto_def limpiarCadena_def es_control_def
  validarNumeroTelefono_def patron_test_def es_espacio_def en_clase_def es_digito_def
  suffix_to_prefix Let_def por_defecto_def

section \<open>The phone-number validator\<close>

lemma digito_no_espacio: "es_digito c \<Longrightarrow> \<not> es_espacio c"
  by (auto simp: es_digito_def es_espacio_def word_le_nat_alt)

lemma set_simbolos: "set (js ''+-()'') = {0x2B, 0x2D, 0x28, 0x29}"
  by (simp add: js_def)

lemma en_clase_sin_espacio:
  "\<not> es_espacio c \<Longrightarrow> en_clase c \<longleftrightarrow> es_digito c \<or> c \<in> set (js ''+-()'')"
  by (auto simp: en_clase_def set_simbolos)

lemma validar_caracterizacion:
  "validarNumeroTelefono numero \<longleftrightarrow>
     (let s = filter (\<lambda>c. \<not> es_espacio c) numero
      in 7 \<le> length s \<and> length s \<le> 20 \<and> (\<forall>c \<in> set s. es_digito c \<or> c \<in> set (js ''+-()'')))"
  by (auto simp: validarNumeroTelefono_def patron_test_def Let_def list_all_iff en_clase_sin_espacio)

lemma validar_ejemplo: "validarNumeroTelefono (js ''+1 (555) 123-4567'')"
  by (simp add: validarNumeroTelefono_def patron_test_def js_def es_espacio_def en_clase_def es_digito_def)

lemma validar_abc: "\<not> validarNumeroTelefono (js ''abc'')"
  by (simp add: validarNumeroTelefono_def patron_test_def js_def es_espacio_def)

lemma validar_25: "length d = 25 \<Longrightarrow> list_all es_digito d \<Longrightarrow> \<not> validarNumeroTelefono d"
proof -
  assume l: "length d = 25" and dig: "list_all es_digito d"
  have "filter (\<lambda>c. \<not> es_espacio c) d = d"
    using dig by (auto simp: list_all_iff digito_no_espacio intro!: filter_True)
  then show ?thesis by (simp add: validarNumeroTelefono_def patron_test_def l)
qed

text \<open>
  Claim C7. The validator accepts a number exactly when the number without its white
  space is 7 to 20 code units long and made of digits and the symbols
  \<^verbatim>\<open>+ - ( )\<close> only. It accepts \<^verbatim>\<open>+1 (555) 123-4567\<close>, rejects \<^verbatim>\<open>abc\<close> and rejects
  every string of 25 digits.
\<close>

theorem validarNumeroTelefono_iff:
  "(validarNumeroTelefono numero \<longleftrightarrow>
      (let s = filter (\<lambda>c. \<not> es_espacio c) numero
       in 7 \<le> length s \<and> length s \<le> 20 \<and> (\<forall>c \<in> set s. es_digito c \<or> c \<in> set (js ''+-()''))))
   \<and> validarNumeroTelefono (js ''+1 (555) 123-4567'')
   \<and> \<not> validarNumeroTelefono (js ''abc'')
   \<and> (\<forall>d. length d = 25 \<and> list_all es_digito d \<longrightarrow> \<not> validarNumeroTelefono d)"
  using validar_caracterizacion [of numero] validar_ejemplo validar_abc validar_25 by blast

theorem validarNumeroTelefono_iff_witness:
  "validarNumeroTelefono (js ''555 1234'') \<and> \<not> validarNumeroTelefono (js ''555-12a'')
   \<and> \<not> validarNumeroTelefono (replicate 25 0x35)"
proof -
  have a: "validarNumeroTelefono (js ''555 1234'')"
    using validarNumeroTelefono_iff [of "js ''555 1234''"]
    by (simp add: js_def es_espacio_def es_digito_def)
  have b: "\<not> validarNumeroTelefono (js ''555-12a'')"
    using validarNumeroTelefono_iff [of "js ''555-12a''"]
    by (simp add: js_def es_espacio_def es_digito_def)
  have "length (replicate 25 (0x35 :: unidad)) = 25 \<and> list_all es_digito (replicate 25 0x35)"
    by (simp add: list_all_iff es_digito_def)
  with validarNumeroTelefono_iff [of "[]"] have "\<not> validarNumeroTelefono (replicate 25 0x35)"
    by blast
  with a b show ?thesis by simp
qed

section \<open>The sanitizer\<close>

lemma foldl_snoc: "foldl (\<lambda>r v. r @ [f v]) acc xs = acc @ map f xs"
  by (induction xs arbitrary: acc) simp_all

lemma asignar_snd:
  "snd (foldl (\<lambda>r (k, v). asignar r k (f v)) (pr, acc) ps)
     = acc @ map (\<lambda>(k, v). (k, f v)) (filter (\<lambda>(k, v). k \<noteq> clave_proto) ps)"
proof (induction ps arbitrary: pr acc)
  case Nil
  show ?case by simp
next
  case (Cons kv ps)
  obtain k v where kv: "kv = (k, v)" by (cases kv)
  show ?case
    by (cases "k = clave_proto"; cases "es_objeto (f v) \<or> f v = Null") (simp_all add: kv Cons.IH)
qed

lemma asignar_fst:
  "fst (foldl (\<lambda>r (k, v). asignar r k (f v)) (pr, acc) ps) = Some q \<Longrightarrow>
     pr = Some q \<or> (\<exists>v. (clave_proto, v) \<in> set ps \<and> q = f v \<and> (es_objeto q \<or> q = Null))"
proof (induction ps arbitrary: pr acc)
  case Nil
  then show ?case by simp
next
  case (Cons kv ps)
  obtain k v where kv: "kv = (k, v)" by (cases kv)
  show ?case
  proof (cases "k = clave_proto \<and> (es_objeto (f v) \<or> f v = Null)")
    case True
    with Cons.prems kv
    have "fst (foldl (\<lambda>r (k, v). asignar r k (f v)) (Some (f v), acc) ps) = Some q" by simp
    from Cons.IH [OF this] True kv show ?thesis by auto
  next
    case False
    with Cons.prems kv
    have "\<exists>acc'. fst (foldl (\<lambda>r (k, v). asignar r k (f v)) (pr, acc') ps) = Some q"
      by (cases "k = clave_proto") auto
    then obtain acc' where "fst (foldl (\<lambda>r (k, v). asignar r k (f v)) (pr, acc') ps) = Some q" ..
    from Cons.IH [OF this] kv show ?thesis by auto
  qed
qed


lemma set_bajo: "set (bajo st hs) = (\<lambda>(p, h). (st # p, h)) ` set hs"
  by (simp add: bajo_def)

lemma bajo_apsnd:
  assumes that: "set hs \<subseteq> apsnd g ` set hs'"
  shows "set (bajo st hs) \<subseteq> apsnd g ` set (bajo st hs')"
proof
  fix x assume "x \<in> set (bajo st hs)"
  then obtain p h where x: "x = (st # p, h)" and "(p, h) \<in> set hs"
    by (auto simp: set_bajo)
  with that obtain h0 where "(p, h0) \<in> set hs'" and h: "h = g h0"
    by (auto simp: apsnd_def map_prod_def)
  then have "(st # p, h0) \<in> set (bajo st hs')" by (auto simp: set_bajo)
  then show "x \<in> apsnd g ` set (bajo st hs')" unfolding x h by (rule rev_image_eqI) simp
qed

lemma hojas_props_mem:
  "(k, v) \<in> set ps \<Longrightarrow> set (bajo (Clave k) (hojas v)) \<subseteq> set (hojas_props ps)"
  by (induction ps) auto

lemma hojas_arreglo_map:
  "(\<And>x. x \<in> set xs \<Longrightarrow> set (hojas (f x)) \<subseteq> apsnd g ` set (hojas x)) \<Longrightarrow>
     set (hojas_arreglo i (map f xs)) \<subseteq> apsnd g ` set (hojas_arreglo i xs)"
proof (induction xs arbitrary: i)
  case Nil
  show ?case by simp
next
  case (Cons x xs)
  have "set (bajo (Indice i) (hojas (f x))) \<subseteq> apsnd g ` set (bajo (Indice i) (hojas x))"
    by (rule bajo_apsnd, rule Cons.prems) simp
  moreover have "set (hojas_arreglo (Suc i) (map f xs)) \<subseteq> apsnd g ` set (hojas_arreglo (Suc i) xs)"
    by (rule Cons.IH, rule Cons.prems) simp
  ultimately show ?case by auto
qed

lemma hojas_props_map:
  "(\<And>k x. (k, x) \<in> set ps \<Longrightarrow> set (hojas (f x)) \<subseteq> apsnd g ` set (hojas x)) \<Longrightarrow>
     set (hojas_props (map (\<lambda>(k, v). (k, f v)) (filter P ps))) \<subseteq> apsnd g ` set (hojas_props ps)"
proof (induction ps)
  case Nil
  show ?case by simp
next
  case (Cons kv ps)
  obtain k x where kv: "kv = (k, x)" by (cases kv)
  have "set (bajo (Clave k) (hojas (f x))) \<subseteq> apsnd g ` set (bajo (Clave k) (hojas x))"
    by (rule bajo_apsnd, rule Cons.prems [of k]) (simp add: kv)
  moreover have "set (hojas_props (map (\<lambda>(k, v). (k, f v)) (filter P ps)))
      \<subseteq> apsnd g ` set (hojas_props ps)"
  proof (rule Cons.IH)
    fix k' x' assume "(k', x') \<in> set ps"
    then have "(k', x') \<in> set (kv # ps)" by simp
    then show "set (hojas (f x')) \<subseteq> apsnd g ` set (hojas x')" by (rule Cons.prems)
  qed
  ultimately show ?case by (auto simp: kv)
qed

lemma limpiarValor_no_objeto: "\<not> es_objeto v \<Longrightarrow> limpiarValor v = limpiarHoja v"
  by (cases v) simp_all

lemma limpiarValor_objeto: "es_objeto v \<Longrightarrow> limpiarValor v = limpiarEntrada v"
  by (cases v) simp_all

lemma hojas_no_objeto: "\<not> es_objeto v \<Longrightarrow> hojas v = [([], v)]"
  by (cases v) simp_all

lemma limpiarHoja_no_objeto: "\<not> es_objeto v \<Longrightarrow> \<not> es_objeto (limpiarHoja v)"
  by (cases v) simp_all

lemma hojas_limpiarValor:
  "set (hojas (limpiarValor v)) \<subseteq> apsnd limpiarHoja ` set (hojas v)"
proof (induction v)
  case (Arreglo xs)
  have "set (hojas_arreglo 0 (map limpiarValor xs)) \<subseteq> apsnd limpiarHoja ` set (hojas_arreglo 0 xs)"
    by (rule hojas_arreglo_map) (rule Arreglo.IH)
  then show ?case by (simp add: foldl_snoc)
next
  case (Objeto pr0 ps)
  let ?r = "foldl (\<lambda>r (k, v). asignar r k (limpiarValor v)) (None, []) ps"
  have res: "limpiarValor (Objeto pr0 ps) = Objeto (fst ?r) (snd ?r)"
    by (simp add: case_prod_beta)
  have ih: "\<And>k x. (k, x) \<in> set ps \<Longrightarrow> set (hojas (limpiarValor x)) \<subseteq> apsnd limpiarHoja ` set (hojas x)"
    using Objeto.IH(2) by (force simp: snds.simps)
  have own: "set (hojas_props (snd ?r)) \<subseteq> apsnd limpiarHoja ` set (hojas_props ps)"
    unfolding asignar_snd append_Nil by (rule hojas_props_map) (rule ih)
  have pro: "set (bajo (Clave clave_proto) (hojas q)) \<subseteq> apsnd limpiarHoja ` set (hojas_props ps)"
    if "fst ?r = Some q" for q
  proof -
    from asignar_fst [OF that] obtain v where v: "(clave_proto, v) \<in> set ps" "q = limpiarValor v"
      by auto
    have "set (bajo (Clave clave_proto) (hojas q))
        \<subseteq> apsnd limpiarHoja ` set (bajo (Clave clave_proto) (hojas v))"
      unfolding v(2) by (rule bajo_apsnd) (rule ih [OF v(1)])
    also have "\<dots> \<subseteq> apsnd limpiarHoja ` set (hojas_props ps)"
      by (rule image_mono) (rule hojas_props_mem [OF v(1)])
    finally show ?thesis .
  qed
  show ?case
    unfolding res using own pro by (cases "fst ?r") auto
qed (simp_all)


lemma mem_bajo: "(st # p, h) \<in> set (bajo st hs) \<longleftrightarrow> (p, h) \<in> set hs"
  by (auto simp: set_bajo)

lemma set_hojas_props:
  "set (hojas_props ps) = (\<Union>(k, v) \<in> set ps. set (bajo (Clave k) (hojas v)))"
  by (induction ps) auto

lemma set_hojas_arreglo:
  "set (hojas_arreglo i xs) = (\<Union>j < length xs. set (bajo (Indice (i + j)) (hojas (xs ! j))))"
proof (induction xs arbitrary: i)
  case Nil
  show ?case by simp
next
  case (Cons x xs)
  have "(\<Union>j < length (x # xs). set (bajo (Indice (i + j)) (hojas ((x # xs) ! j))))
      = set (bajo (Indice i) (hojas x))
        \<union> (\<Union>j < length xs. set (bajo (Indice (Suc i + j)) (hojas (xs ! j))))"
    (is "?l = ?r")
  proof (intro set_eqI iffI)
    fix y assume "y \<in> ?l"
    then obtain j where j: "j < Suc (length xs)" "y \<in> set (bajo (Indice (i + j)) (hojas ((x # xs) ! j)))"
      by auto
    show "y \<in> ?r"
    proof (cases j)
      case 0
      with j show ?thesis by simp
    next
      case (Suc n)
      with j have "n < length xs" "y \<in> set (bajo (Indice (Suc i + n)) (hojas (xs ! n)))" by simp_all
      then show ?thesis by blast
    qed
  next
    fix y assume "y \<in> ?r"
    then consider "y \<in> set (bajo (Indice i) (hojas x))"
      | n where "n < length xs" "y \<in> set (bajo (Indice (Suc i + n)) (hojas (xs ! n)))"
      by blast
    then show "y \<in> ?l"
    proof cases
      case 1
      then have "0 < length (x # xs) \<and> y \<in> set (bajo (Indice (i + 0)) (hojas ((x # xs) ! 0)))" by simp
      then show ?thesis by blast
    next
      case 2
      then have "Suc n < length (x # xs)
          \<and> y \<in> set (bajo (Indice (i + Suc n)) (hojas ((x # xs) ! Suc n)))" by simp
      then show ?thesis by blast
    qed
  qed
  with Cons.IH [of "Suc i"] show ?case by simp
qed

lemma hojas_limpiarValor_ida:
  "(p, h0) \<in> set (hojas v) \<Longrightarrow> Clave clave_proto \<notin> set p \<Longrightarrow>
     (p, limpiarHoja h0) \<in> set (hojas (limpiarValor v))"
proof (induction v arbitrary: p)
  case (Arreglo xs)
  from Arreglo.prems(1) obtain j where j: "j < length xs"
      and m: "(p, h0) \<in> set (bajo (Indice (0 + j)) (hojas (xs ! j)))"
    by (auto simp: set_hojas_arreglo)
  from m obtain q where p: "p = Indice j # q" and q: "(q, h0) \<in> set (hojas (xs ! j))"
    by (auto simp: set_bajo)
  from j have "xs ! j \<in> set xs" by simp
  from Arreglo.IH [OF this q] Arreglo.prems(2) p
  have "(q, limpiarHoja h0) \<in> set (hojas (limpiarValor (xs ! j)))" by simp
  then have "(p, limpiarHoja h0) \<in> set (bajo (Indice (0 + j)) (hojas (map limpiarValor xs ! j)))"
    using j p by (simp add: mem_bajo)
  with j have "(p, limpiarHoja h0) \<in> set (hojas_arreglo 0 (map limpiarValor xs))"
    unfolding set_hojas_arreglo by auto
  then show ?case by (simp add: foldl_snoc)
next
  case (Objeto pr0 ps)
  let ?r = "foldl (\<lambda>r (k, v). asignar r k (limpiarValor v)) (None, []) ps"
  have res: "limpiarValor (Objeto pr0 ps) = Objeto (fst ?r) (snd ?r)"
    by (simp add: case_prod_beta)
  from Objeto.prems have "(p, h0) \<in> set (hojas_props ps)"
    by (auto simp: set_bajo split: option.splits)
  then obtain k x q where kx: "(k, x) \<in> set ps" and p: "p = Clave k # q"
      and q: "(q, h0) \<in> set (hojas x)"
    by (auto simp: set_hojas_props set_bajo)
  from p Objeto.prems(2) have k: "k \<noteq> clave_proto" and nq: "Clave clave_proto \<notin> set q" by auto
  from kx have "x \<in> Basic_BNFs.snds (k, x)" "(k, x) \<in> set ps" by (simp_all add: snds.simps)
  then have "(q, limpiarHoja h0) \<in> set (hojas (limpiarValor x))"
    using Objeto.IH(2) q nq by blast
  then have "(p, limpiarHoja h0) \<in> set (bajo (Clave k) (hojas (limpiarValor x)))"
    by (simp add: mem_bajo p)
  moreover from kx k have "(k, limpiarValor x) \<in> set (snd ?r)"
    unfolding asignar_snd by force
  ultimately have "(p, limpiarHoja h0) \<in> set (hojas_props (snd ?r))"
    unfolding set_hojas_props by blast
  then show ?case unfolding res by simp
qed simp_all

lemma limpiarCadena_limpia:
  "\<not> (\<exists>c \<in> set (limpiarCadena s). es_control c) \<and> length (limpiarCadena s) \<le> 10000"
  by (auto simp: limpiarCadena_def dest: in_set_takeD)

text \<open>The class of \<open>es_control\<close> by code points, and the cleaned string by it.\<close>

lemma es_control_clase:
  "es_control c \<longleftrightarrow> unat c \<in> {0..9} \<union> {11, 12} \<union> {14..31} \<union> {127}"
  by (auto simp: es_control_def word_le_nat_alt word_unat_eq_iff)

lemma limpiarCadena_clase:
  "limpiarCadena s = take 10000 (filter (\<lambda>c. unat c \<notin> {0..9} \<union> {11, 12} \<union> {14..31} \<union> {127}) s)"
  unfolding limpiarCadena_def es_control_clase ..

text \<open>
  Claim C2, amended. For every payload that is an array or an object: every string
  leaf of the result has no code unit of the class 0x00-0x09, 0x0B-0x0C, 0x0E-0x1F,
  0x7F and at most 10000 code units; every leaf of the result comes from the
  payload's leaf at the same path, which is that string without the code units of
  the class and cut to 10000, or that leaf itself if it is no string; and every leaf
  of the payload whose path has no key \<^verbatim>\<open>__proto__\<close> is in the result at the same
  path, a string cleaned so and any other leaf unchanged. A payload that is neither
  an array nor an object, a string included, is returned as it is.
\<close>

theorem limpiarEntrada_hojas:
  "(es_objeto v \<longrightarrow>
      (\<forall>(p, h) \<in> set (hojas (limpiarEntrada v)).
         (\<exists>h0. (p, h0) \<in> set (hojas v)
            \<and> ((\<exists>s. h0 = Cadena s
                   \<and> h = Cadena (take 10000 (filter (\<lambda>c. unat c \<notin> {0..9} \<union> {11, 12} \<union> {14..31} \<union> {127}) s)))
               \<or> ((\<forall>s. h0 \<noteq> Cadena s) \<and> h = h0)))
         \<and> (\<forall>s. h = Cadena s \<longrightarrow>
               (\<forall>c \<in> set s. unat c \<notin> {0..9} \<union> {11, 12} \<union> {14..31} \<union> {127}) \<and> length s \<le> 10000))
      \<and> (\<forall>(p, h0) \<in> set (hojas v). Clave (js ''__proto__'') \<notin> set p \<longrightarrow>
           (\<forall>s. h0 = Cadena s \<longrightarrow>
              (p, Cadena (take 10000 (filter (\<lambda>c. unat c \<notin> {0..9} \<union> {11, 12} \<union> {14..31} \<union> {127}) s)))
                \<in> set (hojas (limpiarEntrada v)))
           \<and> ((\<forall>s. h0 \<noteq> Cadena s) \<longrightarrow> (p, h0) \<in> set (hojas (limpiarEntrada v)))))
   \<and> (\<not> es_objeto v \<longrightarrow> limpiarEntrada v = v)"
proof (intro conjI impI)
  assume ob: "es_objeto v"
  show "\<forall>(p, h) \<in> set (hojas (limpiarEntrada v)).
         (\<exists>h0. (p, h0) \<in> set (hojas v)
            \<and> ((\<exists>s. h0 = Cadena s
                   \<and> h = Cadena (take 10000 (filter (\<lambda>c. unat c \<notin> {0..9} \<union> {11, 12} \<union> {14..31} \<union> {127}) s)))
               \<or> ((\<forall>s. h0 \<noteq> Cadena s) \<and> h = h0)))
         \<and> (\<forall>s. h = Cadena s \<longrightarrow>
               (\<forall>c \<in> set s. unat c \<notin> {0..9} \<union> {11, 12} \<union> {14..31} \<union> {127}) \<and> length s \<le> 10000)"
  proof (clarify, intro conjI)
    fix p h assume "(p, h) \<in> set (hojas (limpiarEntrada v))"
    then have "(p, h) \<in> apsnd limpiarHoja ` set (hojas v)"
      using hojas_limpiarValor [of v] ob by (auto simp: limpiarValor_objeto)
    then obtain h0 where h0: "(p, h0) \<in> set (hojas v)" "h = limpiarHoja h0"
      by (auto simp: apsnd_def map_prod_def)
    from h0(2) have "(\<exists>s. h0 = Cadena s
          \<and> h = Cadena (take 10000 (filter (\<lambda>c. unat c \<notin> {0..9} \<union> {11, 12} \<union> {14..31} \<union> {127}) s)))
        \<or> ((\<forall>s. h0 \<noteq> Cadena s) \<and> h = h0)"
      by (cases h0) (simp_all add: limpiarCadena_clase)
    with h0(1) show "\<exists>h0. (p, h0) \<in> set (hojas v)
            \<and> ((\<exists>s. h0 = Cadena s
                   \<and> h = Cadena (take 10000 (filter (\<lambda>c. unat c \<notin> {0..9} \<union> {11, 12} \<union> {14..31} \<union> {127}) s)))
               \<or> ((\<forall>s. h0 \<noteq> Cadena s) \<and> h = h0))"
      by blast
    show "\<forall>s. h = Cadena s \<longrightarrow>
        (\<forall>c \<in> set s. unat c \<notin> {0..9} \<union> {11, 12} \<union> {14..31} \<union> {127}) \<and> length s \<le> 10000"
    proof (intro allI impI)
      fix s assume "h = Cadena s"
      with h0(2) obtain s0 where "s = limpiarCadena s0" by (cases h0) auto
      then show "(\<forall>c \<in> set s. unat c \<notin> {0..9} \<union> {11, 12} \<union> {14..31} \<union> {127}) \<and> length s \<le> 10000"
        using limpiarCadena_limpia [of s0] by (simp add: es_control_clase)
    qed
  qed
  show "\<forall>(p, h0) \<in> set (hojas v). Clave (js ''__proto__'') \<notin> set p \<longrightarrow>
           (\<forall>s. h0 = Cadena s \<longrightarrow>
              (p, Cadena (take 10000 (filter (\<lambda>c. unat c \<notin> {0..9} \<union> {11, 12} \<union> {14..31} \<union> {127}) s)))
                \<in> set (hojas (limpiarEntrada v)))
           \<and> ((\<forall>s. h0 \<noteq> Cadena s) \<longrightarrow> (p, h0) \<in> set (hojas (limpiarEntrada v)))"
  proof (clarify, intro conjI allI impI)
    fix p h0 assume m: "(p, h0) \<in> set (hojas v)" and "Clave (js ''__proto__'') \<notin> set p"
    then have n: "Clave clave_proto \<notin> set p" by (simp add: clave_proto_def)
    from hojas_limpiarValor_ida [OF m n] ob
    have r: "(p, limpiarHoja h0) \<in> set (hojas (limpiarEntrada v))"
      by (simp add: limpiarValor_objeto)
    {
      fix s assume "h0 = Cadena s"
      with r show "(p, Cadena (take 10000 (filter (\<lambda>c. unat c \<notin> {0..9} \<union> {11, 12} \<union> {14..31} \<union> {127}) s)))
          \<in> set (hojas (limpiarEntrada v))"
        by (simp add: limpiarCadena_clase)
    }
    {
      assume "\<forall>s. h0 \<noteq> Cadena s"
      then have "limpiarHoja h0 = h0" by (cases h0) auto
      with r show "(p, h0) \<in> set (hojas (limpiarEntrada v))" by simp
    }
  qed
next
  assume "\<not> es_objeto v"
  then show "limpiarEntrada v = v" by (cases v) simp_all
qed

theorem limpiarEntrada_hojas_witness:
  "es_objeto (Objeto None [(js ''a'', Cadena [0x41, 0x07, 0x42]), (js ''n'', Numero 5)])
   \<and> hojas (Objeto None [(js ''a'', Cadena [0x41, 0x07, 0x42]), (js ''n'', Numero 5)])
       = [([Clave (js ''a'')], Cadena [0x41, 0x07, 0x42]), ([Clave (js ''n'')], Numero 5)]
   \<and> Clave (js ''__proto__'') \<notin> set [Clave (js ''a'')]
   \<and> Clave (js ''__proto__'') \<notin> set [Clave (js ''n'')]
   \<and> hojas (limpiarEntrada (Objeto None [(js ''a'', Cadena [0x41, 0x07, 0x42]), (js ''n'', Numero 5)]))
       = [([Clave (js ''a'')], Cadena [0x41, 0x42]), ([Clave (js ''n'')], Numero 5)]
   \<and> \<not> (\<exists>x \<in> set (hojas (limpiarEntrada
            (Objeto None [(js ''a'', Cadena [0x41, 0x07, 0x42]), (js ''n'', Numero 5)]))).
          \<exists>s. snd x = Cadena s \<and> (\<exists>c \<in> set s. es_control c))
   \<and> limpiarEntrada (Numero 5) = Numero 5"
  using limpiarEntrada_hojas [of "Objeto None [(js ''a'', Cadena [0x41, 0x07, 0x42]), (js ''n'', Numero 5)]"]
    limpiarEntrada_hojas [of "Numero 5"]
  by (simp add: js_def clave_proto_def limpiarCadena_def es_control_def bajo_def)

text \<open>
  The claim as stated speaks of every payload and of every leaf. A payload that is
  itself a string goes through the first \<^verbatim>\<open>return obj\<close>: its control characters
  stay. And a leaf under an own key \<^verbatim>\<open>__proto__\<close> (which \<^verbatim>\<open>JSON.parse\<close> creates)
  does not pass: \<^verbatim>\<open>resultado[clave] = valor\<close> reaches the prototype's setter, which
  ignores a number.
\<close>

theorem limpiarEntrada_cadena_counterexample:
  "limpiarEntrada (Cadena [0x41, 0x07, 0x42]) = Cadena [0x41, 0x07, 0x42]
   \<and> hojas (limpiarEntrada (Cadena [0x41, 0x07, 0x42])) = [([], Cadena [0x41, 0x07, 0x42])]
   \<and> es_control 0x07
   \<and> hojas (Objeto None [(js ''__proto__'', Numero 5)]) = [([Clave (js ''__proto__'')], Numero 5)]
   \<and> limpiarEntrada (Objeto None [(js ''__proto__'', Numero 5)]) = Objeto None []
   \<and> hojas (limpiarEntrada (Objeto None [(js ''__proto__'', Numero 5)])) = []"
  by (simp add: es_control_def clave_proto_def bajo_def)

text \<open>
  What the assignment does under the key \<^verbatim>\<open>__proto__\<close>: an object there becomes
  the prototype of the result, cleaned, and the destructuring of a handler reads
  through it.
\<close>

lemma limpiarEntrada_proto:
  "limpiarEntrada (Objeto None [(js ''__proto__'', Objeto None [(js ''destino'', Cadena [0x41, 0x07])])])
     = Objeto (Some (Objeto None [(js ''destino'', Cadena [0x41])])) []"
  "leer (limpiarEntrada
      (Objeto None [(js ''__proto__'', Objeto None [(js ''destino'', Cadena [0x41, 0x07])])]))
      (js ''destino'') = Cadena [0x41]"
  by (simp_all add: clave_proto_def limpiarCadena_def es_control_def js_def)

section \<open>The inbound message buffer\<close>







lemma al_recibir_append: "al_recibir g (evs @ evs') c = al_recibir g evs' (al_recibir g evs c)"
  by (simp add: al_recibir_def)






























section \<open>The connection state\<close>

lemma correr_snoc: "correr (evs @ [e]) s = manejar e (correr evs s)"
  by (simp add: correr_def)

lemma clienteListo_manejar:
  "clienteListo (manejar e s) = (if e = Ready then True else if es_desconexion e then False else clienteListo s)"
  by (cases e) simp_all

lemma snoc_descompone:
  "e \<noteq> Ready \<Longrightarrow>
   (\<exists>pre post. evs @ [e] = pre @ Ready # post \<and> \<not> list_ex es_desconexion post)
   \<longleftrightarrow> (\<not> es_desconexion e \<and> (\<exists>pre post. evs = pre @ Ready # post \<and> \<not> list_ex es_desconexion post))"
proof
  assume ne: "e \<noteq> Ready"
  assume "\<exists>pre post. evs @ [e] = pre @ Ready # post \<and> \<not> list_ex es_desconexion post"
  then obtain pre post where d: "evs @ [e] = pre @ Ready # post" and n: "\<not> list_ex es_desconexion post"
    by blast
  from d ne have "post \<noteq> []" by (cases post) auto
  then obtain post1 where p: "post = post1 @ [last post]" by (metis append_butlast_last_id)
  with d have "evs @ [e] = (pre @ Ready # post1) @ [last post]" by simp
  then have "evs = pre @ Ready # post1" "e = last post" by simp_all
  moreover from n p have "\<not> list_ex es_desconexion (post1 @ [last post])" by simp
  then have "\<not> list_ex es_desconexion post1" "\<not> es_desconexion (last post)" by simp_all
  ultimately show "\<not> es_desconexion e
      \<and> (\<exists>pre post. evs = pre @ Ready # post \<and> \<not> list_ex es_desconexion post)"
    by blast
next
  assume "\<not> es_desconexion e \<and> (\<exists>pre post. evs = pre @ Ready # post \<and> \<not> list_ex es_desconexion post)"
  then obtain pre post where "evs = pre @ Ready # post" "\<not> list_ex es_desconexion (post @ [e])"
    by auto
  then have "evs @ [e] = pre @ Ready # (post @ [e]) \<and> \<not> list_ex es_desconexion (post @ [e])" by simp
  then show "\<exists>pre post. evs @ [e] = pre @ Ready # post \<and> \<not> list_ex es_desconexion post" by blast
qed

lemma clienteListo_correr:
  "clienteListo (correr evs estado_inicial)
     \<longleftrightarrow> (\<exists>pre post. evs = pre @ Ready # post \<and> \<not> list_ex es_desconexion post)"
proof (induction evs rule: rev_induct)
  case Nil
  show ?case by (simp add: correr_def estado_inicial_def)
next
  case (snoc e evs)
  show ?case
  proof (cases "e = Ready")
    case True
    have "evs @ [Ready] = evs @ Ready # [] \<and> \<not> list_ex es_desconexion []" by simp
    then have "\<exists>pre post. evs @ [Ready] = pre @ Ready # post \<and> \<not> list_ex es_desconexion post"
      by blast
    with True show ?thesis by (simp add: correr_snoc)
  next
    case False
    show ?thesis
      unfolding snoc_descompone [OF False] correr_snoc clienteListo_manejar
      using False snoc.IH by auto
  qed
qed


text \<open>
  Claim C4, amended. Entering the ready state clears the pairing code and sets
  \<^verbatim>\<open>clienteListo\<close>; the handler of \<^verbatim>\<open>disconnected\<close> clears the flag; the handlers of
  \<^verbatim>\<open>qr\<close>, \<^verbatim>\<open>loading_screen\<close>, \<^verbatim>\<open>authenticated\<close> and \<^verbatim>\<open>auth_failure\<close> leave the flag as
  it was. None of these five sets \<^verbatim>\<open>estadoBot\<close> to \<^verbatim>\<open>conectado\<close>. The flag is clear in
  the initial state, and after any sequence of events it is set exactly when a
  \<^verbatim>\<open>ready\<close> event has come with no \<^verbatim>\<open>disconnected\<close> event after it.
\<close>

theorem manejar_clienteListo:
  "clienteListo (manejar Ready s) \<and> codigoQR (manejar Ready s) = None
   \<and> estadoBot (manejar Ready s) = js ''conectado''
   \<and> \<not> clienteListo (manejar (Disconnected razon) s)
   \<and> clienteListo (manejar (Qr qr) s) = clienteListo s
   \<and> clienteListo (manejar (LoadingScreen porcentaje mensaje) s) = clienteListo s
   \<and> clienteListo (manejar Authenticated s) = clienteListo s
   \<and> clienteListo (manejar (AuthFailure mensaje) s) = clienteListo s
   \<and> estadoBot (manejar (Disconnected razon) s) \<noteq> js ''conectado''
   \<and> estadoBot (manejar (Qr qr) s) \<noteq> js ''conectado''
   \<and> estadoBot (manejar (LoadingScreen porcentaje mensaje) s) \<noteq> js ''conectado''
   \<and> estadoBot (manejar Authenticated s) \<noteq> js ''conectado''
   \<and> estadoBot (manejar (AuthFailure mensaje) s) \<noteq> js ''conectado''
   \<and> \<not> clienteListo estado_inicial
   \<and> (clienteListo (correr evs estado_inicial)
        \<longleftrightarrow> (\<exists>pre post. evs = pre @ Ready # post \<and> \<not> list_ex es_desconexion post))"
  using clienteListo_correr [of evs] by (simp add: js_def estado_inicial_def)

text \<open>
  The claim as stated has every state other than ready clear the flag. After
  \<^verbatim>\<open>ready\<close>, an \<^verbatim>\<open>auth_failure\<close>, an \<^verbatim>\<open>authenticated\<close> or a \<^verbatim>\<open>qr\<close> event changes the
  state and leaves the flag set.
\<close>

theorem manejar_clienteListo_counterexample:
  "estadoBot (correr [Ready, AuthFailure (js ''fallo'')] estado_inicial) = js ''error_autenticacion''
   \<and> clienteListo (correr [Ready, AuthFailure (js ''fallo'')] estado_inicial)
   \<and> estadoBot (correr [Ready, Authenticated] estado_inicial) = js ''autenticado''
   \<and> clienteListo (correr [Ready, Authenticated] estado_inicial)
   \<and> estadoBot (correr [Ready, Qr (js ''codigo'')] estado_inicial) = js ''esperando_qr''
   \<and> clienteListo (correr [Ready, Qr (js ''codigo'')] estado_inicial)"
  by (simp add: correr_def)

section \<open>Fetching the inbound messages\<close>

text \<open>
  Claim C1, amended. With \<^verbatim>\<open>limpiar=true\<close> the handler empties the buffer and answers
  the number of records it removed, not the records. A fetch right after it answers
  an empty sequence (or, with \<^verbatim>\<open>limpiar=true\<close> again, the count 0).
\<close>

theorem mensajes_recibidos_limpiar:
  "query_limpiar req = Cadena (js ''true'') \<Longrightarrow>
   manejador_mensajes_recibidos req s
     = (responder 200
          [(''exito'', Booleano True), (''mensajesLimpiados'', Booleano True),
           (''mensajesEliminados'', Numero (real (length (mensajesEntrantes s))))],
        s\<lparr>mensajesEntrantes := []\<rparr>)
   \<and> (query_limpiar req1 \<noteq> Cadena (js ''true'') \<longrightarrow>
        manejador_mensajes_recibidos req1 (snd (manejador_mensajes_recibidos req s))
          = (responder 200 [(''exito'', Booleano True), (''mensajes'', Arreglo [])],
             s\<lparr>mensajesEntrantes := []\<rparr>))
   \<and> manejador_mensajes_recibidos req (snd (manejador_mensajes_recibidos req s))
        = (responder 200
             [(''exito'', Booleano True), (''mensajesLimpiados'', Booleano True),
              (''mensajesEliminados'', Numero 0)],
           s\<lparr>mensajesEntrantes := []\<rparr>)"
  by (simp add: manejador_mensajes_recibidos_def Let_def)

theorem mensajes_recibidos_limpiar_witness:
  "query_limpiar (req_ejemplo\<lparr>query_limpiar := Cadena (js ''true'')\<rparr>) = Cadena (js ''true'')
   \<and> fst (manejador_mensajes_recibidos req_ejemplo
        (snd (manejador_mensajes_recibidos (req_ejemplo\<lparr>query_limpiar := Cadena (js ''true'')\<rparr>)
               (estado_inicial\<lparr>mensajesEntrantes := [info_ejemplo]\<rparr>))))
       = responder 200 [(''exito'', Booleano True), (''mensajes'', Arreglo [])]"
proof -
  have h: "query_limpiar (req_ejemplo\<lparr>query_limpiar := Cadena (js ''true'')\<rparr>) = Cadena (js ''true'')"
    by (simp add: req_ejemplo_def)
  have h1: "query_limpiar req_ejemplo \<noteq> Cadena (js ''true'')"
    by (simp add: req_ejemplo_def)
  have "manejador_mensajes_recibidos req_ejemplo
          (snd (manejador_mensajes_recibidos (req_ejemplo\<lparr>query_limpiar := Cadena (js ''true'')\<rparr>)
                 (estado_inicial\<lparr>mensajesEntrantes := [info_ejemplo]\<rparr>)))
        = (responder 200 [(''exito'', Booleano True), (''mensajes'', Arreglo [])],
           estado_inicial\<lparr>mensajesEntrantes := [info_ejemplo]\<rparr>\<lparr>mensajesEntrantes := []\<rparr>)"
    using mensajes_recibidos_limpiar
      [OF h, of "estado_inicial\<lparr>mensajesEntrantes := [info_ejemplo]\<rparr>" req_ejemplo] h1
    by blast
  then show ?thesis using h by (simp only: fst_conv simp_thms)
qed

text \<open>
  The claim as stated has the fetch with \<^verbatim>\<open>limpiar=true\<close> return the contents. With one
  record buffered, the response carries the count 1 and no \<^verbatim>\<open>mensajes\<close>.
\<close>

theorem mensajes_recibidos_limpiar_counterexample:
  "mensajesEntrantes (estado_inicial\<lparr>mensajesEntrantes := [info_ejemplo]\<rparr>) = [info_ejemplo]
   \<and> fst (manejador_mensajes_recibidos (req_ejemplo\<lparr>query_limpiar := Cadena (js ''true'')\<rparr>)
          (estado_inicial\<lparr>mensajesEntrantes := [info_ejemplo]\<rparr>))
       = responder 200
           [(''exito'', Booleano True), (''mensajesLimpiados'', Booleano True),
            (''mensajesEliminados'', Numero 1)]
   \<and> leer (r_json (fst (manejador_mensajes_recibidos (req_ejemplo\<lparr>query_limpiar := Cadena (js ''true'')\<rparr>)
          (estado_inicial\<lparr>mensajesEntrantes := [info_ejemplo]\<rparr>)))) (js ''mensajes'') = Undefined"
  by (simp add: manejador_mensajes_recibidos_def req_ejemplo_def responder_def obj_def js_def)

section \<open>Tokens\<close>

text \<open>
  Claim C8, against the token library as modelled from the spec. Verification
  answers \<open>None\<close> (the source's \<^verbatim>\<open>null\<close>) for a malformed token, for one whose
  signature does not verify and for one presented at or after its expiry, and for
  whatever else the library throws; it answers the payload of a rightly signed
  token before its expiry. A token that \<open>generarToken\<close> issues at time \<open>t\<close>
  verifies at \<open>t\<close> and at any time before \<open>t + 24 h\<close>, and no longer from
  \<open>t + 24 h\<close> on.
\<close>

theorem verificarToken_falla_cerrado:
  "verificarToken (jsonwebtoken_verify firma ahora) secreto Malformado = None
   \<and> (f \<noteq> firma secreto c \<longrightarrow>
        verificarToken (jsonwebtoken_verify firma ahora) secreto (Firmado c f) = None)
   \<and> (c_exp c \<le> ahora \<longrightarrow>
        verificarToken (jsonwebtoken_verify firma ahora) secreto (Firmado c f) = None)
   \<and> (f = firma secreto c \<and> ahora < c_exp c \<longrightarrow>
        verificarToken (jsonwebtoken_verify firma ahora) secreto (Firmado c f) = Some c)
   \<and> (jwt_verify token secreto = Inl error \<longrightarrow> verificarToken jwt_verify secreto token = None)
   \<and> verificarToken (jsonwebtoken_verify firma t) secreto
        (generarToken (jsonwebtoken_sign firma t) secreto datos)
       = Some \<lparr>c_usuario = usuario datos, c_permisos = permisos datos, c_iat = t,
               c_exp = t + 24 * 60 * 60\<rparr>
   \<and> (t1 < t + 24 * 60 * 60 \<longrightarrow>
        verificarToken (jsonwebtoken_verify firma t1) secreto
          (generarToken (jsonwebtoken_sign firma t) secreto datos)
         = Some \<lparr>c_usuario = usuario datos, c_permisos = permisos datos, c_iat = t,
                 c_exp = t + 24 * 60 * 60\<rparr>)
   \<and> (t + 24 * 60 * 60 \<le> t1 \<longrightarrow>
        verificarToken (jsonwebtoken_verify firma t1) secreto
          (generarToken (jsonwebtoken_sign firma t) secreto datos) = None)"
  by (simp add: verificarToken_def generarToken_def jsonwebtoken_verify_def jsonwebtoken_sign_def
      Let_def)

theorem verificarToken_falla_cerrado_witness:
  "verificarToken (jsonwebtoken_verify firma_ejemplo 1000) (js ''secreto'')
      (generarToken (jsonwebtoken_sign firma_ejemplo 1000) (js ''secreto'') datos_ejemplo)
     = Some carga_ejemplo
   \<and> verificarToken (jsonwebtoken_verify firma_ejemplo 87399) (js ''secreto'')
      (generarToken (jsonwebtoken_sign firma_ejemplo 1000) (js ''secreto'') datos_ejemplo)
     = Some carga_ejemplo
   \<and> verificarToken (jsonwebtoken_verify firma_ejemplo 87400) (js ''secreto'')
      (generarToken (jsonwebtoken_sign firma_ejemplo 1000) (js ''secreto'') datos_ejemplo)
     = None
   \<and> verificarToken (jsonwebtoken_verify firma_ejemplo 1000) (js ''secreto'')
      (Firmado carga_ejemplo (js ''otro'', carga_ejemplo)) = None
   \<and> verificarToken (jsonwebtoken_verify firma_ejemplo 90000) (js ''secreto'')
      (Firmado carga_ejemplo (js ''secreto'', carga_ejemplo)) = None
   \<and> verificarToken (jsonwebtoken_verify firma_ejemplo 2000) (js ''secreto'')
      (Firmado carga_ejemplo (js ''secreto'', carga_ejemplo)) = Some carga_ejemplo
   \<and> verificarToken (\<lambda>token secreto. Inl (error_de (js ''jwt malformed'')) :: excepcion + carga)
        (js ''secreto'') (js ''abc'') = None"
  using verificarToken_falla_cerrado [of firma_ejemplo 1000 "js ''secreto''"
      "(js ''otro'', carga_ejemplo)" carga_ejemplo
      "\<lambda>token secreto. Inl (error_de (js ''jwt malformed'')) :: excepcion + carga" "js ''abc''"
      "error_de (js ''jwt malformed'')" 1000 datos_ejemplo 87399]
    verificarToken_falla_cerrado [of firma_ejemplo 90000 "js ''secreto''"
      "(js ''secreto'', carga_ejemplo)" carga_ejemplo
      "\<lambda>token secreto. Inl (error_de (js ''jwt malformed'')) :: excepcion + carga" "js ''abc''"
      "error_de (js ''jwt malformed'')" 1000 datos_ejemplo 87400]
    verificarToken_falla_cerrado [of firma_ejemplo 2000 "js ''secreto''"
      "(js ''secreto'', carga_ejemplo)" carga_ejemplo
      "\<lambda>token secreto. Inl (error_de (js ''jwt malformed'')) :: excepcion + carga" "js ''abc''"
      "error_de (js ''jwt malformed'')" 1000 datos_ejemplo 87400]
  by (simp add: firma_ejemplo_def carga_ejemplo_def datos_ejemplo_def js_def)

section \<open>Authorization\<close>

lemma requiereAutenticacion_admite:
  "token_de req = Some token \<Longrightarrow> token \<noteq> [] \<Longrightarrow> jwt_verify token (jwt_secret cfg) = Inr d \<Longrightarrow>
   verdadero d \<Longrightarrow>
   requiereAutenticacion jwt_verify cfg req = Inr (req\<lparr>req_usuario := Some d\<rparr>)"
  by (cases token) (simp_all add: requiereAutenticacion_def verificarToken_def)

lemma requiereAutenticacion_Inr:
  "requiereAutenticacion jwt_verify cfg req = Inr req1 \<Longrightarrow> \<exists>d. req1 = req\<lparr>req_usuario := Some d\<rparr>"
  by (auto simp: requiereAutenticacion_def Let_def split: option.splits list.splits if_splits)

lemma intento_enviar_usuario:
  "intento_enviar cfg ent (req\<lparr>req_usuario := u\<rparr>) = intento_enviar cfg ent req"
  by (simp add: intento_enviar_def)

lemma manejador_enviar_usuario:
  "manejador_enviar cfg ent (req\<lparr>req_usuario := u\<rparr>) = manejador_enviar cfg ent req"
  by (simp add: manejador_enviar_def intento_enviar_usuario)

lemma manejador_mensajes_usuario:
  "manejador_mensajes_recibidos (req\<lparr>req_usuario := u\<rparr>) s = manejador_mensajes_recibidos req s"
  by (simp add: manejador_mensajes_recibidos_def)

lemma manejador_verificar_usuario:
  "manejador_verificar ent (req\<lparr>req_usuario := u\<rparr>) = manejador_verificar ent req"
  by (simp add: manejador_verificar_def)

lemma requiereConexion_Inr: "requiereConexion s req = Inr q \<Longrightarrow> q = req"
  by (simp add: requiereConexion_def split: if_splits)

lemma limitadorGeneral_Inr: "limitadorGeneral cfg ent req = Inr q \<Longrightarrow> q = req"
  by (simp add: limitadorGeneral_def split: if_splits)

lemma limitadorMensajes_Inr: "limitadorMensajes ent req = Inr q \<Longrightarrow> q = req"
  by (simp add: limitadorMensajes_def split: if_splits)

text \<open>
  A route whose \<^verbatim>\<open>requiereAutenticacion\<close> passes the request on does what its other
  middlewares and its handler do with the request.
\<close>

lemma ruta_admitida:
  assumes "requiereAutenticacion jwt_verify cfg req = Inr (req\<lparr>req_usuario := Some d\<rparr>)"
  shows "ruta jwt_verify cfg ent EnviarMensaje s req =
       (case encadenar [limitadorGeneral cfg ent, limitadorMensajes ent, requiereConexion s] req of
          Inl r \<Rightarrow> ([], r, s)
        | Inr req1 \<Rightarrow> (case manejador_enviar cfg ent req1 of (tr, r) \<Rightarrow> (tr, r, s)))"
    and "ruta jwt_verify cfg ent ListarGrupos s req =
       (case encadenar [limitadorGeneral cfg ent, requiereConexion s] req of
          Inl r \<Rightarrow> ([], r, s)
        | Inr req1 \<Rightarrow> ([], manejador_grupos ent, s))"
    and "ruta jwt_verify cfg ent ListarContactos s req =
       (case encadenar [limitadorGeneral cfg ent, requiereConexion s] req of
          Inl r \<Rightarrow> ([], r, s)
        | Inr req1 \<Rightarrow> ([], manejador_contactos ent, s))"
    and "ruta jwt_verify cfg ent MensajesRecibidos s req =
       (case encadenar [limitadorGeneral cfg ent] req of
          Inl r \<Rightarrow> ([], r, s)
        | Inr req1 \<Rightarrow> (case manejador_mensajes_recibidos req1 s of (r, s1) \<Rightarrow> ([], r, s1)))"
    and "ruta jwt_verify cfg ent VerificarNumero s req =
       (case encadenar [limitadorGeneral cfg ent, requiereConexion s] req of
          Inl r \<Rightarrow> ([], r, s)
        | Inr req1 \<Rightarrow> ([], manejador_verificar ent req1, s))"
  using assms
  by (simp_all add: ruta_enviar_mensaje_def ruta_grupos_def ruta_contactos_def
      ruta_mensajes_recibidos_def ruta_verificar_numero_def limitadorGeneral_def
      limitadorMensajes_def requiereConexion_def manejador_enviar_usuario
      manejador_mensajes_usuario manejador_verificar_usuario split_beta)

lemma requiereAutenticacion_rechaza:
  "token_de req = Some token \<Longrightarrow> token \<noteq> [] \<Longrightarrow> jwt_verify token (jwt_secret cfg) = Inl error \<Longrightarrow>
   requiereAutenticacion jwt_verify cfg req
     = Inl \<lparr>r_status = 401, r_json = obj
         [(''exito'', Booleano False),
          (''error'', Cadena (js ''Token inv'' @ [0xE1] @ js ''lido o expirado''))]\<rparr>"
  by (cases token) (simp_all add: requiereAutenticacion_def verificarToken_def)

lemma ruta_rechazada:
  assumes "requiereAutenticacion jwt_verify cfg req = Inl r0"
  shows "ruta jwt_verify cfg ent op s req =
     (case encadenar
             (if op = EnviarMensaje then [limitadorGeneral cfg ent, limitadorMensajes ent]
              else [limitadorGeneral cfg ent]) req of
        Inl r \<Rightarrow> ([], r, s)
      | Inr req1 \<Rightarrow> ([], r0, s))"
  using assms
  by (cases op)
    (simp_all add: ruta_enviar_mensaje_def ruta_grupos_def ruta_contactos_def
      ruta_mensajes_recibidos_def ruta_verificar_numero_def limitadorGeneral_def
      limitadorMensajes_def)

lemma ruta_igual:
  assumes "requiereAutenticacion jwt_verify cfg req = Inr (req\<lparr>req_usuario := Some d\<rparr>)"
    and "requiereAutenticacion jwt_verify' cfg req = Inr (req\<lparr>req_usuario := Some d'\<rparr>)"
  shows "ruta jwt_verify' cfg ent op s req = ruta jwt_verify cfg ent op s req"
  by (cases op) (simp_all only: ruta_admitida [OF assms(1)] ruta_admitida [OF assms(2)])

text \<open>
  Claim C10. Take a request with a token that the library verifies, which is to say
  that it answers the token's payload \<open>d\<close>, a truthy value as every object is.
  \<^verbatim>\<open>requiereAutenticacion\<close> passes the request on, whatever the payload holds, and
  each of the five protected routes does what its other middlewares and its handler
  do with the request: none of them reads the payload. Had the library answered any
  other payload \<open>d'\<close> for the token, with other permissions or none, the request
  would be passed on all the same, and each route would make the same calls, give
  the same response and leave the same state. Had the library thrown instead, each
  route would answer 401 after its rate limiters, make no call and leave the state
  as it is: what the authorization looks at is whether the library verifies the
  token, and nothing in the payload.
\<close>

theorem autorizacion_ignora_permisos:
  assumes "token_de req = Some token" and "token \<noteq> []"
    and "jwt_verify token (jwt_secret cfg) = Inr d" and "verdadero d"
    and "jwt_verify' token (jwt_secret cfg) = Inr d'" and "verdadero d'"
  shows "requiereAutenticacion jwt_verify cfg req = Inr (req\<lparr>req_usuario := Some d\<rparr>)
     \<and> ruta jwt_verify cfg ent EnviarMensaje s req =
         (case encadenar [limitadorGeneral cfg ent, limitadorMensajes ent, requiereConexion s] req of
            Inl r \<Rightarrow> ([], r, s)
          | Inr req1 \<Rightarrow> (case manejador_enviar cfg ent req1 of (tr, r) \<Rightarrow> (tr, r, s)))
     \<and> ruta jwt_verify cfg ent ListarGrupos s req =
         (case encadenar [limitadorGeneral cfg ent, requiereConexion s] req of
            Inl r \<Rightarrow> ([], r, s)
          | Inr req1 \<Rightarrow> ([], manejador_grupos ent, s))
     \<and> ruta jwt_verify cfg ent ListarContactos s req =
         (case encadenar [limitadorGeneral cfg ent, requiereConexion s] req of
            Inl r \<Rightarrow> ([], r, s)
          | Inr req1 \<Rightarrow> ([], manejador_contactos ent, s))
     \<and> ruta jwt_verify cfg ent MensajesRecibidos s req =
         (case encadenar [limitadorGeneral cfg ent] req of
            Inl r \<Rightarrow> ([], r, s)
          | Inr req1 \<Rightarrow> (case manejador_mensajes_recibidos req1 s of (r, s1) \<Rightarrow> ([], r, s1)))
     \<and> ruta jwt_verify cfg ent VerificarNumero s req =
         (case encadenar [limitadorGeneral cfg ent, requiereConexion s] req of
            Inl r \<Rightarrow> ([], r, s)
          | Inr req1 \<Rightarrow> ([], manejador_verificar ent req1, s))
     \<and> requiereAutenticacion jwt_verify' cfg req = Inr (req\<lparr>req_usuario := Some d'\<rparr>)
     \<and> ruta jwt_verify' cfg ent op s req = ruta jwt_verify cfg ent op s req
     \<and> (jwt_verify'' token (jwt_secret cfg) = Inl error \<longrightarrow>
          ruta jwt_verify'' cfg ent op s req =
            (case encadenar
                    (if op = EnviarMensaje then [limitadorGeneral cfg ent, limitadorMensajes ent]
                     else [limitadorGeneral cfg ent]) req of
               Inl r \<Rightarrow> ([], r, s)
             | Inr req1 \<Rightarrow>
                 ([], \<lparr>r_status = 401, r_json = obj
                        [(''exito'', Booleano False),
                         (''error'', Cadena (js ''Token inv'' @ [0xE1] @ js ''lido o expirado''))]\<rparr>,
                  s)))"
proof -
  have a: "requiereAutenticacion jwt_verify cfg req = Inr (req\<lparr>req_usuario := Some d\<rparr>)"
    using assms(1-4) by (rule requiereAutenticacion_admite)
  have b: "requiereAutenticacion jwt_verify' cfg req = Inr (req\<lparr>req_usuario := Some d'\<rparr>)"
    using assms(1,2,5,6) by (rule requiereAutenticacion_admite)
  have c: "jwt_verify'' token (jwt_secret cfg) = Inl error \<longrightarrow>
      ruta jwt_verify'' cfg ent op s req =
        (case encadenar
                (if op = EnviarMensaje then [limitadorGeneral cfg ent, limitadorMensajes ent]
                 else [limitadorGeneral cfg ent]) req of
           Inl r \<Rightarrow> ([], r, s)
         | Inr req1 \<Rightarrow>
             ([], \<lparr>r_status = 401, r_json = obj
                    [(''exito'', Booleano False),
                     (''error'', Cadena (js ''Token inv'' @ [0xE1] @ js ''lido o expirado''))]\<rparr>,
              s))"
  proof
    assume "jwt_verify'' token (jwt_secret cfg) = Inl error"
    with assms(1,2) have "requiereAutenticacion jwt_verify'' cfg req
        = Inl \<lparr>r_status = 401, r_json = obj
            [(''exito'', Booleano False),
             (''error'', Cadena (js ''Token inv'' @ [0xE1] @ js ''lido o expirado''))]\<rparr>"
      by (rule requiereAutenticacion_rechaza)
    then show "ruta jwt_verify'' cfg ent op s req =
        (case encadenar
                (if op = EnviarMensaje then [limitadorGeneral cfg ent, limitadorMensajes ent]
                 else [limitadorGeneral cfg ent]) req of
           Inl r \<Rightarrow> ([], r, s)
         | Inr req1 \<Rightarrow>
             ([], \<lparr>r_status = 401, r_json = obj
                    [(''exito'', Booleano False),
                     (''error'', Cadena (js ''Token inv'' @ [0xE1] @ js ''lido o expirado''))]\<rparr>,
              s))"
      by (rule ruta_rechazada)
  qed
  from a b c ruta_admitida [OF a, of ent s] ruta_igual [OF a b, of ent op s]
  show ?thesis by (intro conjI)
qed

lemma manejador_enviar_ejemplo:
  "manejador_enviar cfg_ejemplo ent_ejemplo req_ejemplo
     = ([ClienteIsRegisteredUser (js ''5215551234567@c.us''),
         ClienteSendMessage (js ''5215551234567@c.us'') (Texto (Cadena (js ''hola'')))],
        responder 200
          [(''exito'', Booleano True), (''idMensaje'', Cadena (js ''ID1'')),
           (''mensaje'', Cadena (js ''Mensaje enviado correctamente''))])"
  by (simp add: manejador_enviar_def intento_enviar_def despachar_def enviar_def ent_ejemplo_def
      req_ejemplo_def cfg_ejemplo_def evaluacion)

theorem autorizacion_ignora_permisos_witness:
  "token_de req_ejemplo = Some (js ''abc'')
   \<and> leer usuario_sin_permisos (js ''permisos'') = Arreglo []
   \<and> requiereAutenticacion verify_sin_permisos cfg_ejemplo req_ejemplo
       = Inr (req_ejemplo\<lparr>req_usuario := Some usuario_sin_permisos\<rparr>)
   \<and> ruta verify_sin_permisos cfg_ejemplo ent_ejemplo EnviarMensaje (manejar Ready estado_inicial)
        req_ejemplo
       = ruta verify_ejemplo cfg_ejemplo ent_ejemplo EnviarMensaje (manejar Ready estado_inicial)
           req_ejemplo
   \<and> ruta verify_sin_permisos cfg_ejemplo ent_ejemplo EnviarMensaje (manejar Ready estado_inicial)
        req_ejemplo
       = ([ClienteIsRegisteredUser (js ''5215551234567@c.us''),
           ClienteSendMessage (js ''5215551234567@c.us'') (Texto (Cadena (js ''hola'')))],
          responder 200
            [(''exito'', Booleano True), (''idMensaje'', Cadena (js ''ID1'')),
             (''mensaje'', Cadena (js ''Mensaje enviado correctamente''))],
          manejar Ready estado_inicial)
   \<and> ruta verify_expirado cfg_ejemplo ent_ejemplo EnviarMensaje (manejar Ready estado_inicial)
        req_ejemplo
       = ([], responder 401
            [(''exito'', Booleano False),
             (''error'', Cadena (js ''Token inv'' @ [0xE1] @ js ''lido o expirado''))],
          manejar Ready estado_inicial)"
proof -
  have t: "token_de req_ejemplo = Some (js ''abc'')"
    by (simp add: token_de_def req_ejemplo_def js_def)
  have n: "js ''abc'' \<noteq> []" by (simp add: js_def)
  have v: "verify_ejemplo (js ''abc'') (jwt_secret cfg_ejemplo) = Inr usuario_ejemplo"
    by (simp add: verify_ejemplo_def cfg_ejemplo_def)
  have v1: "verify_sin_permisos (js ''abc'') (jwt_secret cfg_ejemplo) = Inr usuario_sin_permisos"
    by (simp add: verify_sin_permisos_def)
  have v2: "verify_expirado (js ''abc'') (jwt_secret cfg_ejemplo) = Inl (error_de (js ''jwt expired''))"
    by (simp add: verify_expirado_def)
  have o: "verdadero usuario_ejemplo" and o1: "verdadero usuario_sin_permisos"
    by (simp_all add: usuario_ejemplo_def usuario_sin_permisos_def obj_def)
  have p: "leer usuario_sin_permisos (js ''permisos'') = Arreglo []"
    by (simp add: usuario_sin_permisos_def obj_def js_def)
  have c: "encadenar [limitadorGeneral cfg_ejemplo ent_ejemplo, limitadorMensajes ent_ejemplo,
        requiereConexion (manejar Ready estado_inicial)] req_ejemplo = Inr req_ejemplo"
    by (simp add: limitadorGeneral_def limitadorMensajes_def requiereConexion_def ent_ejemplo_def)
  have c1: "encadenar
        (if EnviarMensaje = EnviarMensaje
         then [limitadorGeneral cfg_ejemplo ent_ejemplo, limitadorMensajes ent_ejemplo]
         else [limitadorGeneral cfg_ejemplo ent_ejemplo]) req_ejemplo = Inr req_ejemplo"
    by (simp add: limitadorGeneral_def limitadorMensajes_def ent_ejemplo_def)
  note w = autorizacion_ignora_permisos
    [where jwt_verify = verify_sin_permisos and jwt_verify' = verify_ejemplo
      and jwt_verify'' = verify_expirado and error = "error_de (js ''jwt expired'')",
      OF t n v1 o1 v o, of ent_ejemplo "manejar Ready estado_inicial" EnviarMensaje]
  from w have w1: "requiereAutenticacion verify_sin_permisos cfg_ejemplo req_ejemplo
       = Inr (req_ejemplo\<lparr>req_usuario := Some usuario_sin_permisos\<rparr>)"
    by (rule conjunct1)
  from w [THEN conjunct2, THEN conjunct1]
  have w2: "ruta verify_sin_permisos cfg_ejemplo ent_ejemplo EnviarMensaje (manejar Ready estado_inicial)
        req_ejemplo
       = ([ClienteIsRegisteredUser (js ''5215551234567@c.us''),
           ClienteSendMessage (js ''5215551234567@c.us'') (Texto (Cadena (js ''hola'')))],
          responder 200
            [(''exito'', Booleano True), (''idMensaje'', Cadena (js ''ID1'')),
             (''mensaje'', Cadena (js ''Mensaje enviado correctamente''))],
          manejar Ready estado_inicial)"
    by (simp only: c manejador_enviar_ejemplo sum.case prod.case)
  from w [THEN conjunct2, THEN conjunct2, THEN conjunct2, THEN conjunct2, THEN conjunct2,
      THEN conjunct2, THEN conjunct2, THEN conjunct1]
  have w3: "ruta verify_sin_permisos cfg_ejemplo ent_ejemplo EnviarMensaje (manejar Ready estado_inicial)
        req_ejemplo
       = ruta verify_ejemplo cfg_ejemplo ent_ejemplo EnviarMensaje (manejar Ready estado_inicial)
           req_ejemplo"
    by (rule sym)
  from w [THEN conjunct2, THEN conjunct2, THEN conjunct2, THEN conjunct2, THEN conjunct2,
      THEN conjunct2, THEN conjunct2, THEN conjunct2, THEN mp, OF v2]
  have w4: "ruta verify_expirado cfg_ejemplo ent_ejemplo EnviarMensaje (manejar Ready estado_inicial)
        req_ejemplo
       = ([], responder 401
            [(''exito'', Booleano False),
             (''error'', Cadena (js ''Token inv'' @ [0xE1] @ js ''lido o expirado''))],
          manejar Ready estado_inicial)"
    by (simp only: c1 sum.case responder_def)
  from t p w1 w3 w2 w4 show ?thesis by (intro conjI)
qed

section \<open>The connection gate\<close>

lemma leer_obj_nil: "leer (obj []) k = Undefined"
  by (simp add: obj_def)

lemma leer_obj_cons:
  "leer (obj ((k, v) # ps)) k' = (if js k = k' then v else leer (obj ps) k')"
  by (simp add: obj_def)

text \<open>
  Claim C9, amended. Take a request that both rate limiters admit and that
  \<^verbatim>\<open>requiereAutenticacion\<close> passes on (an authenticated request). While the connection
  is not ready, the send route makes no call and answers 503 with the error of
  \<^verbatim>\<open>requiereConexion\<close> and the current \<^verbatim>\<open>estadoBot\<close>. The fetch route
  answers 200 whatever the connection state is: with the buffered messages when
  \<^verbatim>\<open>limpiar\<close> is not \<^verbatim>\<open>true\<close>, and with the count of the records it removed when it
  is.
\<close>

theorem rutas_segun_conexion:
  assumes "admite_general ent" and "admite_mensajes ent"
    and "requiereAutenticacion jwt_verify cfg req = Inr req1"
  shows "(\<not> (clienteListo s \<and> estadoBot s = js ''conectado'') \<longrightarrow>
            fst (ruta_enviar_mensaje jwt_verify cfg ent s req) = []
          \<and> r_status (snd (ruta_enviar_mensaje jwt_verify cfg ent s req)) = 503
          \<and> leer (r_json (snd (ruta_enviar_mensaje jwt_verify cfg ent s req))) (js ''exito'')
              = Booleano False
          \<and> leer (r_json (snd (ruta_enviar_mensaje jwt_verify cfg ent s req))) (js ''error'')
              = Cadena (js ''WhatsApp no est'' @ [0xE1] @ js '' conectado'')
          \<and> leer (r_json (snd (ruta_enviar_mensaje jwt_verify cfg ent s req))) (js ''estado'')
              = Cadena (estadoBot s))
     \<and> (query_limpiar req \<noteq> Cadena (js ''true'') \<longrightarrow>
          ruta_mensajes_recibidos jwt_verify cfg ent s req
            = (responder 200
                 [(''exito'', Booleano True),
                  (''mensajes'', Arreglo (map json_de_info (mensajesEntrantes s)))],
               s))
     \<and> (query_limpiar req = Cadena (js ''true'') \<longrightarrow>
          ruta_mensajes_recibidos jwt_verify cfg ent s req
            = (responder 200
                 [(''exito'', Booleano True), (''mensajesLimpiados'', Booleano True),
                  (''mensajesEliminados'', Numero (real (length (mensajesEntrantes s))))],
               s\<lparr>mensajesEntrantes := []\<rparr>))"
proof -
  from assms(3) obtain d where req1: "req1 = req\<lparr>req_usuario := Some d\<rparr>"
    using requiereAutenticacion_Inr by blast
  have q: "query_limpiar req1 = query_limpiar req" by (simp add: req1)
  have m: "ruta_mensajes_recibidos jwt_verify cfg ent s req = manejador_mensajes_recibidos req1 s"
    using assms by (simp add: ruta_mensajes_recibidos_def limitadorGeneral_def)
  have e: "\<not> (clienteListo s \<and> estadoBot s = js ''conectado'') \<Longrightarrow>
      ruta_enviar_mensaje jwt_verify cfg ent s req = ([], projl (requiereConexion s req1))"
    using assms
    by (simp add: ruta_enviar_mensaje_def limitadorGeneral_def limitadorMensajes_def
        requiereConexion_def)
  show ?thesis
  proof (intro conjI impI)
    assume n: "\<not> (clienteListo s \<and> estadoBot s = js ''conectado'')"
    then have r: "projl (requiereConexion s req1)
        = \<lparr>r_status = 503, r_json = obj
          [(''exito'', Booleano False),
           (''error'', Cadena (js ''WhatsApp no est'' @ [0xE1] @ js '' conectado'')),
           (''estado'', Cadena (estadoBot s)),
           (''mensaje'', Cadena
              (if estadoBot s = js ''esperando_qr''
               then js ''Escanea el c'' @ [0xF3] @ js ''digo QR primero''
               else js ''Espera a que WhatsApp se conecte''))]\<rparr>"
      by (auto simp: requiereConexion_def)
    show "fst (ruta_enviar_mensaje jwt_verify cfg ent s req) = []"
      by (simp add: e [OF n])
    show "r_status (snd (ruta_enviar_mensaje jwt_verify cfg ent s req)) = 503"
      by (simp add: e [OF n] r)
    show "leer (r_json (snd (ruta_enviar_mensaje jwt_verify cfg ent s req))) (js ''exito'')
        = Booleano False"
      by (simp add: e [OF n] r leer_obj_cons)
    show "leer (r_json (snd (ruta_enviar_mensaje jwt_verify cfg ent s req))) (js ''error'')
        = Cadena (js ''WhatsApp no est'' @ [0xE1] @ js '' conectado'')"
      by (simp add: e [OF n] r leer_obj_cons js_def)
    show "leer (r_json (snd (ruta_enviar_mensaje jwt_verify cfg ent s req))) (js ''estado'')
        = Cadena (estadoBot s)"
      by (simp add: e [OF n] r leer_obj_cons js_def)
  next
    assume "query_limpiar req \<noteq> Cadena (js ''true'')"
    then show "ruta_mensajes_recibidos jwt_verify cfg ent s req
            = (responder 200
                 [(''exito'', Booleano True),
                  (''mensajes'', Arreglo (map json_de_info (mensajesEntrantes s)))],
               s)"
      by (simp add: m manejador_mensajes_recibidos_def q)
  next
    assume "query_limpiar req = Cadena (js ''true'')"
    then show "ruta_mensajes_recibidos jwt_verify cfg ent s req
            = (responder 200
                 [(''exito'', Booleano True), (''mensajesLimpiados'', Booleano True),
                  (''mensajesEliminados'', Numero (real (length (mensajesEntrantes s))))],
               s\<lparr>mensajesEntrantes := []\<rparr>)"
      by (simp add: m manejador_mensajes_recibidos_def q Let_def)
  qed
qed

lemma autenticada_ejemplo:
  "requiereAutenticacion verify_ejemplo cfg_ejemplo (req_ejemplo\<lparr>query_limpiar := q\<rparr>)
     = Inr (req_ejemplo\<lparr>query_limpiar := q, req_usuario := Some usuario_ejemplo\<rparr>)"
  by (simp add: requiereAutenticacion_def token_de_def req_ejemplo_def js_def verificarToken_def
      verify_ejemplo_def cfg_ejemplo_def usuario_ejemplo_def obj_def)

theorem rutas_segun_conexion_witness:
  "admite_general ent_ejemplo \<and> admite_mensajes ent_ejemplo
   \<and> requiereAutenticacion verify_ejemplo cfg_ejemplo req_ejemplo
       = Inr (req_ejemplo\<lparr>req_usuario := Some usuario_ejemplo\<rparr>)
   \<and> \<not> (clienteListo estado_desconectado \<and> estadoBot estado_desconectado = js ''conectado'')
   \<and> r_status (snd (ruta_enviar_mensaje verify_ejemplo cfg_ejemplo ent_ejemplo estado_desconectado
        req_ejemplo)) = 503
   \<and> leer (r_json (snd (ruta_enviar_mensaje verify_ejemplo cfg_ejemplo ent_ejemplo
        estado_desconectado req_ejemplo))) (js ''estado'') = Cadena (js ''desconectado'')
   \<and> ruta_mensajes_recibidos verify_ejemplo cfg_ejemplo ent_ejemplo estado_desconectado req_ejemplo
       = (responder 200
            [(''exito'', Booleano True), (''mensajes'', Arreglo [json_de_info info_ejemplo])],
          estado_desconectado)
   \<and> ruta_mensajes_recibidos verify_ejemplo cfg_ejemplo ent_ejemplo estado_desconectado
        (req_ejemplo\<lparr>query_limpiar := Cadena (js ''true'')\<rparr>)
       = (responder 200
            [(''exito'', Booleano True), (''mensajesLimpiados'', Booleano True),
             (''mensajesEliminados'', Numero 1)],
          estado_desconectado\<lparr>mensajesEntrantes := []\<rparr>)"
proof -
  have g: "admite_general ent_ejemplo" and m: "admite_mensajes ent_ejemplo"
    by (simp_all add: ent_ejemplo_def)
  have a: "requiereAutenticacion verify_ejemplo cfg_ejemplo req_ejemplo
       = Inr (req_ejemplo\<lparr>req_usuario := Some usuario_ejemplo\<rparr>)"
    using autenticada_ejemplo [of Undefined] by (simp add: req_ejemplo_def)
  have n: "\<not> (clienteListo estado_desconectado \<and> estadoBot estado_desconectado = js ''conectado'')"
    by (simp add: estado_desconectado_def)
  have q: "query_limpiar req_ejemplo \<noteq> Cadena (js ''true'')"
    by (simp add: req_ejemplo_def)
  have e: "estadoBot estado_desconectado = js ''desconectado''"
    and b: "mensajesEntrantes estado_desconectado = [info_ejemplo]"
    by (simp_all add: estado_desconectado_def)
  have a1: "requiereAutenticacion verify_ejemplo cfg_ejemplo
        (req_ejemplo\<lparr>query_limpiar := Cadena (js ''true'')\<rparr>)
      = Inr (req_ejemplo\<lparr>query_limpiar := Cadena (js ''true''), req_usuario := Some usuario_ejemplo\<rparr>)"
    by (rule autenticada_ejemplo)
  have q1: "query_limpiar (req_ejemplo\<lparr>query_limpiar := Cadena (js ''true'')\<rparr>) = Cadena (js ''true'')"
    by simp
  from rutas_segun_conexion [OF g m a, of estado_desconectado] n q e b
    rutas_segun_conexion [OF g m a1, of estado_desconectado] q1
  show ?thesis using g m a by simp
qed

text \<open>
  The claim as stated has the fetch serve the buffered messages to every
  authenticated request. With \<^verbatim>\<open>limpiar=true\<close> and the connection lost, the response
  holds the count and no message.
\<close>

theorem rutas_segun_conexion_counterexample:
  "requiereAutenticacion verify_ejemplo cfg_ejemplo
       (req_ejemplo\<lparr>query_limpiar := Cadena (js ''true'')\<rparr>)
     = Inr (req_ejemplo\<lparr>query_limpiar := Cadena (js ''true''), req_usuario := Some usuario_ejemplo\<rparr>)
   \<and> \<not> clienteListo estado_desconectado
   \<and> mensajesEntrantes estado_desconectado = [info_ejemplo]
   \<and> fst (ruta_mensajes_recibidos verify_ejemplo cfg_ejemplo ent_ejemplo estado_desconectado
          (req_ejemplo\<lparr>query_limpiar := Cadena (js ''true'')\<rparr>))
       = responder 200
           [(''exito'', Booleano True), (''mensajesLimpiados'', Booleano True),
            (''mensajesEliminados'', Numero 1)]
   \<and> leer (r_json (fst (ruta_mensajes_recibidos verify_ejemplo cfg_ejemplo ent_ejemplo
          estado_desconectado (req_ejemplo\<lparr>query_limpiar := Cadena (js ''true'')\<rparr>))))
        (js ''mensajes'') = Undefined"
proof -
  have "ruta_mensajes_recibidos verify_ejemplo cfg_ejemplo ent_ejemplo estado_desconectado
          (req_ejemplo\<lparr>query_limpiar := Cadena (js ''true'')\<rparr>)
      = (responder 200
           [(''exito'', Booleano True), (''mensajesLimpiados'', Booleano True),
            (''mensajesEliminados'', Numero 1)],
         estado_desconectado\<lparr>mensajesEntrantes := []\<rparr>)"
    by (simp add: ruta_mensajes_recibidos_def limitadorGeneral_def autenticada_ejemplo
        manejador_mensajes_recibidos_def ent_ejemplo_def estado_desconectado_def)
  then show ?thesis
    by (simp add: autenticada_ejemplo estado_desconectado_def responder_def leer_obj_cons
        leer_obj_nil js_def)
qed

section \<open>Failures while handling a request\<close>

text \<open>
  Claim C6, amended. A failure caught while a request is handled gives a 500
  response. Its error text is the fixed \<^verbatim>\<open>Error interno del servidor\<close> in
  \<^verbatim>\<open>/api/auth\<close> and in the error middleware (for an error that is not
  \<^verbatim>\<open>entity.too.large\<close>); it is the fixed prefix \<^verbatim>\<open>Error al enviar mensaje: \<close> followed by
  the exception's message in the send handler; and it is the exception's message
  alone in the handlers of grupos, contactos and verificar-numero. Nothing else of
  the exception (its stack, its type) reaches the body.
\<close>

theorem fallos_internos:
  "(errores ent = [] \<and> intento_enviar cfg ent req = (tr, Inl error) \<longrightarrow>
      manejador_enviar cfg ent req
        = (tr, responder 500
             [(''exito'', Booleano False),
              (''error'', Cadena (js ''Error al enviar mensaje: '' @ e_message error))]))
   \<and> (getChats ent = Inl error \<longrightarrow>
        manejador_grupos ent
          = responder 500 [(''exito'', Booleano False), (''error'', Cadena (e_message error))])
   \<and> (getContacts ent = Inl error \<longrightarrow>
        manejador_contactos ent
          = responder 500 [(''exito'', Booleano False), (''error'', Cadena (e_message error))])
   \<and> (errores ent = [] \<and> validarNumeroTelefono (params_numero req)
        \<and> isRegisteredUser ent (params_numero req @ js ''@c.us'') = Inl error \<longrightarrow>
        manejador_verificar ent req
          = responder 500 [(''exito'', Booleano False), (''error'', Cadena (e_message error))])
   \<and> (errores ent = [] \<and> limpiarEntrada (body req) \<noteq> Undefined \<and> limpiarEntrada (body req) \<noteq> Null
        \<and> bcrypt_compare ent (leer (limpiarEntrada (body req)) (js ''contrasena'')) = Inl error \<longrightarrow>
        manejador_auth jwt_sign cfg ent req
          = responder 500
              [(''exito'', Booleano False), (''error'', Cadena (js ''Error interno del servidor''))])
   \<and> (e_type error \<noteq> Some (js ''entity.too.large'') \<longrightarrow>
        manejador_errores error
          = responder 500
              [(''exito'', Booleano False), (''error'', Cadena (js ''Error interno del servidor''))])"
  by (simp add: manejador_enviar_def manejador_grupos_def manejador_contactos_def
      manejador_verificar_def manejador_auth_def manejador_errores_def Let_def)

lemma intento_falla_ejemplo:
  "intento_enviar cfg_ejemplo (ent_ejemplo\<lparr>sendMessage := \<lambda>chatId c. Inl error_ejemplo\<rparr>) req_ejemplo
     = ([ClienteIsRegisteredUser (js ''5215551234567@c.us''),
         ClienteSendMessage (js ''5215551234567@c.us'') (Texto (Cadena (js ''hola'')))],
        Inl error_ejemplo)"
  by (simp add: intento_enviar_def req_ejemplo_def ent_ejemplo_def despachar_def enviar_def
      evaluacion)

theorem fallos_internos_witness:
  "manejador_enviar cfg_ejemplo (ent_ejemplo\<lparr>sendMessage := \<lambda>chatId c. Inl error_ejemplo\<rparr>)
       req_ejemplo
     = ([ClienteIsRegisteredUser (js ''5215551234567@c.us''),
         ClienteSendMessage (js ''5215551234567@c.us'') (Texto (Cadena (js ''hola'')))],
        responder 500
          [(''exito'', Booleano False),
           (''error'', Cadena (js ''Error al enviar mensaje: '' @ e_message error_ejemplo))])
   \<and> manejador_grupos (ent_ejemplo\<lparr>getChats := Inl error_ejemplo\<rparr>)
       = responder 500
           [(''exito'', Booleano False), (''error'', Cadena (e_message error_ejemplo))]
   \<and> manejador_contactos (ent_ejemplo\<lparr>getContacts := Inl error_ejemplo\<rparr>)
       = responder 500
           [(''exito'', Booleano False), (''error'', Cadena (e_message error_ejemplo))]
   \<and> manejador_verificar (ent_ejemplo\<lparr>isRegisteredUser := \<lambda>chatId. Inl error_ejemplo\<rparr>) req_ejemplo
       = responder 500
           [(''exito'', Booleano False), (''error'', Cadena (e_message error_ejemplo))]
   \<and> manejador_auth (\<lambda>datos secreto expiresIn. js ''abc'') cfg_ejemplo
        (ent_ejemplo\<lparr>bcrypt_compare := \<lambda>contrasena. Inl error_ejemplo\<rparr>) req_ejemplo
       = responder 500
           [(''exito'', Booleano False), (''error'', Cadena (js ''Error interno del servidor''))]
   \<and> manejador_errores error_ejemplo
       = responder 500
           [(''exito'', Booleano False), (''error'', Cadena (js ''Error interno del servidor''))]"
proof -
  let ?e1 = "ent_ejemplo\<lparr>sendMessage := \<lambda>chatId c. Inl error_ejemplo\<rparr>"
  let ?e2 = "ent_ejemplo\<lparr>getChats := Inl error_ejemplo\<rparr>"
  let ?e3 = "ent_ejemplo\<lparr>getContacts := Inl error_ejemplo\<rparr>"
  let ?e4 = "ent_ejemplo\<lparr>isRegisteredUser := \<lambda>chatId. Inl error_ejemplo\<rparr>"
  let ?e5 = "ent_ejemplo\<lparr>bcrypt_compare := \<lambda>contrasena. Inl error_ejemplo\<rparr>"
  have h1: "errores ?e1 = [] \<and> intento_enviar cfg_ejemplo ?e1 req_ejemplo
      = ([ClienteIsRegisteredUser (js ''5215551234567@c.us''),
          ClienteSendMessage (js ''5215551234567@c.us'') (Texto (Cadena (js ''hola'')))],
         Inl error_ejemplo)"
    using intento_falla_ejemplo by (simp add: ent_ejemplo_def)
  have h2: "getChats ?e2 = Inl error_ejemplo" by simp
  have h3: "getContacts ?e3 = Inl error_ejemplo" by simp
  have h4: "errores ?e4 = [] \<and> validarNumeroTelefono (params_numero req_ejemplo)
      \<and> isRegisteredUser ?e4 (params_numero req_ejemplo @ js ''@c.us'') = Inl error_ejemplo"
    by (simp add: ent_ejemplo_def req_ejemplo_def evaluacion)
  have h5: "errores ?e5 = [] \<and> limpiarEntrada (body req_ejemplo) \<noteq> Undefined
      \<and> limpiarEntrada (body req_ejemplo) \<noteq> Null
      \<and> bcrypt_compare ?e5 (leer (limpiarEntrada (body req_ejemplo)) (js ''contrasena''))
          = Inl error_ejemplo"
    by (simp add: ent_ejemplo_def req_ejemplo_def evaluacion)
  have h6: "e_type error_ejemplo \<noteq> Some (js ''entity.too.large'')"
    by (simp add: error_ejemplo_def)
  from h1 fallos_internos [where ent = ?e1 and cfg = cfg_ejemplo and req = req_ejemplo
      and error = error_ejemplo]
  have c1: "manejador_enviar cfg_ejemplo ?e1 req_ejemplo
     = ([ClienteIsRegisteredUser (js ''5215551234567@c.us''),
         ClienteSendMessage (js ''5215551234567@c.us'') (Texto (Cadena (js ''hola'')))],
        responder 500
          [(''exito'', Booleano False),
           (''error'', Cadena (js ''Error al enviar mensaje: '' @ e_message error_ejemplo))])"
    by blast
  from h2 fallos_internos [where ent = ?e2 and error = error_ejemplo]
  have c2: "manejador_grupos ?e2
       = responder 500 [(''exito'', Booleano False), (''error'', Cadena (e_message error_ejemplo))]"
    by blast
  from h3 fallos_internos [where ent = ?e3 and error = error_ejemplo]
  have c3: "manejador_contactos ?e3
       = responder 500 [(''exito'', Booleano False), (''error'', Cadena (e_message error_ejemplo))]"
    by blast
  from h4 fallos_internos [where ent = ?e4 and req = req_ejemplo and error = error_ejemplo]
  have c4: "manejador_verificar ?e4 req_ejemplo
       = responder 500 [(''exito'', Booleano False), (''error'', Cadena (e_message error_ejemplo))]"
    by blast
  from h5 fallos_internos [where ent = ?e5 and req = req_ejemplo and error = error_ejemplo
      and cfg = cfg_ejemplo and jwt_sign = "\<lambda>datos secreto expiresIn. js ''abc''"]
  have c5: "manejador_auth (\<lambda>datos secreto expiresIn. js ''abc'') cfg_ejemplo ?e5 req_ejemplo
       = responder 500
           [(''exito'', Booleano False), (''error'', Cadena (js ''Error interno del servidor''))]"
    by blast
  from h6 fallos_internos [where error = error_ejemplo]
  have c6: "manejador_errores error_ejemplo
       = responder 500
           [(''exito'', Booleano False), (''error'', Cadena (js ''Error interno del servidor''))]"
    by blast
  from c1 c2 c3 c4 c5 c6 show ?thesis by (intro conjI)
qed

text \<open>
  The claim as stated has every such response carry a generic message and no
  exception text. When \<^verbatim>\<open>getChats\<close> fails, the body's error is the exception's message
  and nothing else; when \<^verbatim>\<open>sendMessage\<close> fails, the message follows the prefix in full.
  The message is whatever the failing package wrote: here two lines, the second a
  position in a script.
\<close>

theorem fallos_internos_counterexample:
  "e_message error_ejemplo
     = js ''Evaluation failed: TypeError: window.Store is undefined''
       @ [0x0A] @ js ''    at __puppeteer_evaluation_script__:2:31''
   \<and> manejador_grupos (ent_ejemplo\<lparr>getChats := Inl error_ejemplo\<rparr>)
       = responder 500
           [(''exito'', Booleano False), (''error'', Cadena (e_message error_ejemplo))]
   \<and> snd (manejador_enviar cfg_ejemplo
            (ent_ejemplo\<lparr>sendMessage := \<lambda>chatId c. Inl error_ejemplo\<rparr>) req_ejemplo)
       = responder 500
           [(''exito'', Booleano False),
            (''error'', Cadena (js ''Error al enviar mensaje: '' @ e_message error_ejemplo))]"
proof -
  have e: "errores (ent_ejemplo\<lparr>sendMessage := \<lambda>chatId c. Inl error_ejemplo\<rparr>) = []"
    by (simp add: ent_ejemplo_def)
  have m: "e_message error_ejemplo
     = js ''Evaluation failed: TypeError: window.Store is undefined''
       @ [0x0A] @ js ''    at __puppeteer_evaluation_script__:2:31''"
    by (simp add: error_ejemplo_def)
  have a: "snd (manejador_enviar cfg_ejemplo
            (ent_ejemplo\<lparr>sendMessage := \<lambda>chatId c. Inl error_ejemplo\<rparr>) req_ejemplo)
       = responder 500
           [(''exito'', Booleano False),
            (''error'', Cadena (js ''Error al enviar mensaje: '' @ e_message error_ejemplo))]"
    by (simp add: manejador_enviar_def intento_falla_ejemplo e)
  have g: "manejador_grupos (ent_ejemplo\<lparr>getChats := Inl error_ejemplo\<rparr>)
       = responder 500 [(''exito'', Booleano False), (''error'', Cadena (e_message error_ejemplo))]"
    by (simp add: manejador_grupos_def)
  from m g a show ?thesis by (intro conjI)
qed

section \<open>Sending an attachment\<close>

lemma enviar_traza:
  "enviar ent tr0 chatId c m = (tr, res) \<Longrightarrow> tr = tr0 @ [ClienteSendMessage chatId c]"
  by (auto simp: enviar_def split: sum.splits valor.splits)

lemma despachar_traza:
  assumes d: "despachar cfg ent chatId mensaje ra = (tr, res)"
    and v: "verdadero ra"
    and s: "ClienteSendMessage x y \<in> set tr"
  shows "\<exists>ruta media tam. ra = Cadena ruta
      \<and> existsSync ent (path_resolve ent ruta)
      \<and> statSync ent (path_resolve ent ruta) = Inr tam \<and> tam \<le> max_file_size cfg * 1024 * 1024
      \<and> fromFilePath ent (path_resolve ent ruta) = Inr media
      \<and> tr = [PathResolve ruta, FsExistsSync (path_resolve ent ruta),
               FsStatSync (path_resolve ent ruta), MediaFromFilePath (path_resolve ent ruta),
               ClienteSendMessage chatId (Archivo media mensaje)]"
proof (cases ra)
  case (Cadena ruta)
  let ?p = "path_resolve ent ruta"
  show ?thesis
  proof (cases "existsSync ent ?p")
    case False
    with d v s Cadena show ?thesis by (auto simp: despachar_def Let_def)
  next
    case ex: True
    show ?thesis
    proof (cases "statSync ent ?p")
      case (Inl e)
      with d v s Cadena ex show ?thesis by (auto simp: despachar_def Let_def)
    next
      case (Inr tam)
      show ?thesis
      proof (cases "tam > max_file_size cfg * 1024 * 1024")
        case True
        with d v s Cadena ex Inr show ?thesis by (auto simp: despachar_def Let_def)
      next
        case small: False
        show ?thesis
        proof (cases "fromFilePath ent ?p")
          case (Inl e)
          with d v s Cadena ex Inr small show ?thesis by (auto simp: despachar_def Let_def)
        next
          case med: (Inr media)
          from d v Cadena ex Inr small med
          have "enviar ent [PathResolve ruta, FsExistsSync ?p, FsStatSync ?p, MediaFromFilePath ?p]
                  chatId (Archivo media mensaje) mensaje = (tr, res)"
            by (simp add: despachar_def Let_def)
          from enviar_traza [OF this] Cadena ex Inr small med show ?thesis by simp
        qed
      qed
    qed
  qed
qed (use d v s in \<open>auto simp: despachar_def\<close>)

lemma verdadero_defecto: "verdadero (por_defecto v (Booleano False)) = verdadero v"
  by (cases v) (simp_all add: por_defecto_def)

lemma intento_enviar_traza:
  assumes i: "intento_enviar cfg ent req = (tr, res)"
    and s: "ClienteSendMessage chatId c \<in> set tr"
  shows "\<exists>chatId1 tr1.
      despachar cfg ent chatId1 (leer (limpiarEntrada (body req)) (js ''mensaje''))
        (leer (limpiarEntrada (body req)) (js ''rutaArchivo'')) = (tr1, res)
      \<and> ClienteSendMessage chatId c \<in> set tr1
      \<and> tr = (if verdadero (leer (limpiarEntrada (body req)) (js ''esGrupo'')) then []
              else [ClienteIsRegisteredUser chatId1]) @ tr1"
proof -
  let ?D = "limpiarEntrada (body req)"
  let ?g = "verdadero (leer ?D (js ''esGrupo''))"
  from i s have nn: "?D \<noteq> Undefined" "?D \<noteq> Null"
    by (auto simp: intento_enviar_def Let_def)
  from i s nn obtain d where d: "leer ?D (js ''destino'') = Cadena d"
    by (cases "leer ?D (js ''destino'')") (auto simp: intento_enviar_def Let_def)
  let ?chat = "if ?g then (if suffix (js ''@g.us'') d then d else d @ js ''@g.us'')
               else (if suffix (js ''@c.us'') d then d else d @ js ''@c.us'')"
  let ?desp = "despachar cfg ent ?chat (leer ?D (js ''mensaje'')) (leer ?D (js ''rutaArchivo''))"
  show ?thesis
  proof (cases ?g)
    case True
    with i s nn d have "?desp = (tr, res)"
      by (auto simp: intento_enviar_def Let_def verdadero_defecto split: if_splits)
    with True s show ?thesis by auto
  next
    case False
    with i s nn d obtain tr1 where "?desp = (tr1, res)" "tr = ClienteIsRegisteredUser ?chat # tr1"
      by (auto simp: intento_enviar_def Let_def verdadero_defecto
          split: if_splits sum.splits prod.splits)
    with False s show ?thesis by auto
  qed
qed

text \<open>
  Claim C3, amended. When the sanitized body has a truthy \<^verbatim>\<open>rutaArchivo\<close> and the handler
  calls \<^verbatim>\<open>cliente.sendMessage\<close>, the path is a string that was resolved, the file
  exists, its size was read and is at most \<^verbatim>\<open>MAX_FILE_SIZE\<close> megabytes, and these
  checks and the reading of the media come before the call, which is the handler's
  last. For a group destination nothing precedes them; for an individual
  destination the client's \<^verbatim>\<open>isRegisteredUser\<close> is called first, before the checks.
\<close>

theorem enviar_comprueba_archivo:
  assumes m: "manejador_enviar cfg ent req = (tr, r)"
    and v: "verdadero (leer (limpiarEntrada (body req)) (js ''rutaArchivo''))"
    and s: "ClienteSendMessage chatId c \<in> set tr"
  shows "\<exists>ruta media tam.
      leer (limpiarEntrada (body req)) (js ''rutaArchivo'') = Cadena ruta
    \<and> existsSync ent (path_resolve ent ruta)
    \<and> statSync ent (path_resolve ent ruta) = Inr tam \<and> tam \<le> max_file_size cfg * 1024 * 1024
    \<and> fromFilePath ent (path_resolve ent ruta) = Inr media
    \<and> c = Archivo media (leer (limpiarEntrada (body req)) (js ''mensaje''))
    \<and> tr = (if verdadero (leer (limpiarEntrada (body req)) (js ''esGrupo'')) then []
            else [ClienteIsRegisteredUser chatId])
          @ [PathResolve ruta, FsExistsSync (path_resolve ent ruta),
             FsStatSync (path_resolve ent ruta), MediaFromFilePath (path_resolve ent ruta),
             ClienteSendMessage chatId c]"
proof -
  from m s obtain res where i: "intento_enviar cfg ent req = (tr, res)"
    by (cases "intento_enviar cfg ent req")
      (auto simp: manejador_enviar_def split: if_splits sum.splits)
  from intento_enviar_traza [OF i s] obtain chatId1 tr1 where
    d: "despachar cfg ent chatId1 (leer (limpiarEntrada (body req)) (js ''mensaje''))
          (leer (limpiarEntrada (body req)) (js ''rutaArchivo'')) = (tr1, res)"
    and s1: "ClienteSendMessage chatId c \<in> set tr1"
    and tr: "tr = (if verdadero (leer (limpiarEntrada (body req)) (js ''esGrupo'')) then []
              else [ClienteIsRegisteredUser chatId1]) @ tr1"
    by blast
  from despachar_traza [OF d v s1] obtain ruta media tam where
    r: "leer (limpiarEntrada (body req)) (js ''rutaArchivo'') = Cadena ruta"
    and ok: "existsSync ent (path_resolve ent ruta)"
      "statSync ent (path_resolve ent ruta) = Inr tam" "tam \<le> max_file_size cfg * 1024 * 1024"
      "fromFilePath ent (path_resolve ent ruta) = Inr media"
    and tr1: "tr1 = [PathResolve ruta, FsExistsSync (path_resolve ent ruta),
               FsStatSync (path_resolve ent ruta), MediaFromFilePath (path_resolve ent ruta),
               ClienteSendMessage chatId1
                 (Archivo media (leer (limpiarEntrada (body req)) (js ''mensaje'')))]"
    by blast
  from s1 tr1 have eq: "chatId1 = chatId"
    "c = Archivo media (leer (limpiarEntrada (body req)) (js ''mensaje''))" by auto
  show ?thesis
    using r ok tr tr1 eq by auto
qed

lemma enviar_archivo_ejemplo:
  "manejador_enviar cfg_ejemplo ent_ejemplo req_archivo
     = ([ClienteIsRegisteredUser (js ''5215551234567@c.us''), PathResolve (js ''/tmp/foto.png''),
         FsExistsSync (js ''/tmp/foto.png''), FsStatSync (js ''/tmp/foto.png''),
         MediaFromFilePath (js ''/tmp/foto.png''),
         ClienteSendMessage (js ''5215551234567@c.us'')
           (Archivo (js ''datos'') (Cadena (js ''hola'')))],
        responder 200
          [(''exito'', Booleano True), (''idMensaje'', Cadena (js ''ID1'')),
           (''mensaje'', Cadena (js ''Mensaje enviado correctamente''))])"
  by (simp add: manejador_enviar_def intento_enviar_def req_archivo_def req_ejemplo_def
      ent_ejemplo_def cfg_ejemplo_def despachar_def enviar_def evaluacion)

lemma enviar_archivo_grupo_ejemplo:
  "manejador_enviar cfg_ejemplo ent_ejemplo req_archivo_grupo
     = ([PathResolve (js ''/tmp/foto.png''),
         FsExistsSync (js ''/tmp/foto.png''), FsStatSync (js ''/tmp/foto.png''),
         MediaFromFilePath (js ''/tmp/foto.png''),
         ClienteSendMessage (js ''120363041234567890@g.us'')
           (Archivo (js ''datos'') (Cadena (js ''hola'')))],
        responder 200
          [(''exito'', Booleano True), (''idMensaje'', Cadena (js ''ID1'')),
           (''mensaje'', Cadena (js ''Mensaje enviado correctamente''))])"
  by (simp add: manejador_enviar_def intento_enviar_def req_archivo_grupo_def req_ejemplo_def
      ent_ejemplo_def cfg_ejemplo_def despachar_def enviar_def evaluacion)

text \<open>
  The claim as stated puts the checks before any call to the client. For an
  individual destination the first call is the client's \<^verbatim>\<open>isRegisteredUser\<close>; when it
  answers false the handler stops there, the file never looked at.
\<close>

theorem enviar_comprueba_archivo_counterexample:
  "verdadero (leer (limpiarEntrada (body req_archivo)) (js ''rutaArchivo''))
   \<and> fst (manejador_enviar cfg_ejemplo ent_ejemplo req_archivo)
       = [ClienteIsRegisteredUser (js ''5215551234567@c.us''), PathResolve (js ''/tmp/foto.png''),
          FsExistsSync (js ''/tmp/foto.png''), FsStatSync (js ''/tmp/foto.png''),
          MediaFromFilePath (js ''/tmp/foto.png''),
          ClienteSendMessage (js ''5215551234567@c.us'')
            (Archivo (js ''datos'') (Cadena (js ''hola'')))]
   \<and> es_cliente (hd (fst (manejador_enviar cfg_ejemplo ent_ejemplo req_archivo)))
   \<and> manejador_enviar cfg_ejemplo (ent_ejemplo\<lparr>isRegisteredUser := \<lambda>chatId. Inr False\<rparr>) req_archivo
       = ([ClienteIsRegisteredUser (js ''5215551234567@c.us'')],
          responder 400
            [(''exito'', Booleano False),
             (''error'', Cadena (js ''El n'' @ [0xFA] @ js ''mero no est'' @ [0xE1]
                @ js '' registrado en WhatsApp''))])"
proof -
  have a: "verdadero (leer (limpiarEntrada (body req_archivo)) (js ''rutaArchivo''))"
    by (simp add: req_archivo_def evaluacion)
  have b: "manejador_enviar cfg_ejemplo (ent_ejemplo\<lparr>isRegisteredUser := \<lambda>chatId. Inr False\<rparr>)
        req_archivo
       = ([ClienteIsRegisteredUser (js ''5215551234567@c.us'')],
          responder 400
            [(''exito'', Booleano False),
             (''error'', Cadena (js ''El n'' @ [0xFA] @ js ''mero no est'' @ [0xE1]
                @ js '' registrado en WhatsApp''))])"
    by (simp add: manejador_enviar_def intento_enviar_def req_archivo_def req_ejemplo_def
        ent_ejemplo_def cfg_ejemplo_def evaluacion)
  show ?thesis
    unfolding enviar_archivo_ejemplo using a b by simp
qed

theorem enviar_comprueba_archivo_witness:
  "manejador_enviar cfg_ejemplo ent_ejemplo req_archivo_grupo
     = ([PathResolve (js ''/tmp/foto.png''),
         FsExistsSync (js ''/tmp/foto.png''), FsStatSync (js ''/tmp/foto.png''),
         MediaFromFilePath (js ''/tmp/foto.png''),
         ClienteSendMessage (js ''120363041234567890@g.us'')
           (Archivo (js ''datos'') (Cadena (js ''hola'')))],
        responder 200
          [(''exito'', Booleano True), (''idMensaje'', Cadena (js ''ID1'')),
           (''mensaje'', Cadena (js ''Mensaje enviado correctamente''))])
   \<and> verdadero (leer (limpiarEntrada (body req_archivo_grupo)) (js ''rutaArchivo''))
   \<and> existsSync ent_ejemplo (path_resolve ent_ejemplo (js ''/tmp/foto.png''))
   \<and> (\<exists>tam. statSync ent_ejemplo (path_resolve ent_ejemplo (js ''/tmp/foto.png'')) = Inr tam
         \<and> tam \<le> max_file_size cfg_ejemplo * 1024 * 1024)"
proof -
  have v: "verdadero (leer (limpiarEntrada (body req_archivo_grupo)) (js ''rutaArchivo''))"
    and r: "leer (limpiarEntrada (body req_archivo_grupo)) (js ''rutaArchivo'')
        = Cadena (js ''/tmp/foto.png'')"
    by (simp_all add: req_archivo_grupo_def evaluacion)
  have s: "ClienteSendMessage (js ''120363041234567890@g.us'')
      (Archivo (js ''datos'') (Cadena (js ''hola'')))
      \<in> set [PathResolve (js ''/tmp/foto.png''),
         FsExistsSync (js ''/tmp/foto.png''), FsStatSync (js ''/tmp/foto.png''),
         MediaFromFilePath (js ''/tmp/foto.png''),
         ClienteSendMessage (js ''120363041234567890@g.us'')
           (Archivo (js ''datos'') (Cadena (js ''hola'')))]"
    by simp
  from enviar_comprueba_archivo [OF enviar_archivo_grupo_ejemplo v s] r
  have "existsSync ent_ejemplo (path_resolve ent_ejemplo (js ''/tmp/foto.png''))
   \<and> (\<exists>tam. statSync ent_ejemplo (path_resolve ent_ejemplo (js ''/tmp/foto.png'')) = Inr tam
         \<and> tam \<le> max_file_size cfg_ejemplo * 1024 * 1024)"
    by auto
  with enviar_archivo_grupo_ejemplo v show ?thesis by simp
qed

end
